theory Spec2Isabelle
  imports Main "HOL-Library.Word" "HOL-Library.Monad_Syntax"
begin

section \<open>C++ integers\<close>

text \<open>
  The shape fields of \<open>GPUImage\<close> and of \<open>image_t\<close> are C++ \<open>int\<close>s (32 bits), the pitch of
  a \<open>GPUImage\<close> is a \<open>size_t\<close> (its address is passed to \<open>cudaMallocPitch\<close>). They are
  modelled as \<open>int\<close> and \<open>nat\<close>. A signed multiplication that leaves the range of \<open>int\<close> is
  undefined behaviour in C++: \<open>int_mul\<close> returns \<open>None\<close> there, and every operation that
  evaluates such a product returns \<open>None\<close>. The conversion of an \<open>int\<close> to \<open>size_t\<close> is
  defined for every value (modulo \<open>2 ^ 64\<close>).
\<close>

definition INT_MIN :: int where
  "INT_MIN = - (2 ^ 31)"

definition INT_MAX :: int where
  "INT_MAX = 2 ^ 31 - 1"

definition int_mul :: "int \<Rightarrow> int \<Rightarrow> int option" where
  "int_mul a b = (if INT_MIN \<le> a * b \<and> a * b \<le> INT_MAX then Some (a * b) else None)"

definition to_size_t :: "int \<Rightarrow> nat" where
  "to_size_t i = nat (i mod 2 ^ 64)"

definition size_t_to_int :: "nat \<Rightarrow> int" where
  "size_t_to_int n = (let m = int n mod 2 ^ 32 in if m < 2 ^ 31 then m else m - 2 ^ 32)"

section \<open>The compute platform\<close>

text \<open>
  Pointers are addresses, \<open>0\<close> is \<open>nullptr\<close>. Host and device memory are two separate
  byte-addressed memories. The device keeps the table of its live allocations (base
  address and size in bytes) and of its live texture objects.
\<close>

type_synonym addr = nat
type_synonym byte = "8 word"
type_synonym cudaTextureObject_t = nat

datatype cudaError_t =
    cudaSuccess
  | cudaErrorInvalidValue
  | cudaErrorMemoryAllocation
  | cudaErrorInvalidPitchValue
  | cudaErrorInvalidDevicePointer
  | cudaErrorInvalidResourceHandle

datatype cudaMemcpyKind = cudaMemcpyHostToDevice | cudaMemcpyDeviceToHost

datatype cudaChannelFormatKind =
    cudaChannelFormatKindSigned
  | cudaChannelFormatKindUnsigned
  | cudaChannelFormatKindFloat
  | cudaChannelFormatKindNone

datatype cudaTextureAddressMode =
    cudaAddressModeWrap
  | cudaAddressModeClamp
  | cudaAddressModeMirror
  | cudaAddressModeBorder

datatype cudaTextureFilterMode = cudaFilterModePoint | cudaFilterModeLinear

datatype cudaTextureReadMode = cudaReadModeElementType | cudaReadModeNormalizedFloat

record cudaChannelFormatDesc =
  desc_x :: int
  desc_y :: int
  desc_z :: int
  desc_w :: int
  desc_f :: cudaChannelFormatKind

record cudaTextureDesc =
  addressMode0 :: cudaTextureAddressMode
  addressMode1 :: cudaTextureAddressMode
  filterMode :: cudaTextureFilterMode
  readMode :: cudaTextureReadMode
  normalizedCoords :: bool

text \<open>A resource descriptor of type \<open>cudaResourceTypePitch2D\<close>, the only one the code builds.\<close>

record cudaResourceDesc =
  pitch2D_desc :: cudaChannelFormatDesc
  pitch2D_devPtr :: addr
  pitch2D_pitchInBytes :: nat
  pitch2D_width :: nat
  pitch2D_height :: nat

text \<open>The calls the program makes to the platform, in the order it makes them.\<close>

datatype call =
    MallocPitch nat nat
  | Memcpy2D addr nat addr nat nat nat cudaMemcpyKind
  | Free addr
  | CreateTextureObject cudaResourceDesc cudaTextureDesc
  | DestroyTextureObject cudaTextureObject_t

text \<open>The diagnostics the program writes to \<open>std::cerr\<close>.\<close>

datatype diag =
    UploadShapesDoNotMatch
  | DownloadUnallocatedImage
  | DownloadShapesDoNotMatch
  | DeviceMemoryAllocation cudaError_t
  | ChannelsGreaterThan4 int
  | TextureCreation cudaError_t
  | CheckError cudaError_t

text \<open>
  The state of the program and of the device: the device's allocations, memory and texture
  objects, the host memory, the use counts of the control blocks of the
  \<open>std::shared_ptr\<close>s (a control block is named by a number, \<open>next_cb\<close> is the next fresh
  one), the diagnostics written and the platform calls made.
\<close>

record world =
  allocs :: "(addr \<times> nat) list"
  dmem :: "addr \<Rightarrow> byte"
  textures :: "cudaTextureObject_t list"
  hmem :: "addr \<Rightarrow> byte"
  use_count :: "nat \<Rightarrow> nat"
  next_cb :: nat
  cerr :: "diag list"
  calls :: "call list"

text \<open>
  What the platform decides on its own: whether an allocation succeeds, where it lies and
  with which pitch (from the live allocations, the requested row width in bytes and the
  number of rows), and whether a texture object can be created, and its handle.
\<close>

record platform =
  malloc_result :: "(addr \<times> nat) list \<Rightarrow> nat \<Rightarrow> nat \<Rightarrow> cudaError_t \<times> addr \<times> nat"
  texture_result :: "cudaTextureObject_t list \<Rightarrow> cudaResourceDesc \<Rightarrow> cudaTextureDesc
    \<Rightarrow> cudaError_t \<times> cudaTextureObject_t"

text \<open>
  The contract of \<open>cudaMallocPitch\<close>: a successful allocation has a pitch of at least the
  requested row width and, for a non-empty request, a pointer other than \<open>nullptr\<close>.
\<close>

definition platform_contract :: "platform \<Rightarrow> bool" where
  "platform_contract plat \<longleftrightarrow>
     (\<forall>al wd ht p pt. malloc_result plat al wd ht = (cudaSuccess, p, pt) \<longrightarrow>
        wd \<le> pt \<and> (0 < wd \<and> 0 < ht \<longrightarrow> p \<noteq> 0))"

text \<open>
  \<open>cudaMallocPitch(&devPtr, &pitch, width, height)\<close>: the two out-parameters come in with
  their old values and are written on success only.
\<close>

definition cudaMallocPitch ::
  "platform \<Rightarrow> world \<Rightarrow> addr \<Rightarrow> nat \<Rightarrow> nat \<Rightarrow> nat \<Rightarrow> cudaError_t \<times> addr \<times> nat \<times> world" where
  "cudaMallocPitch plat w devPtr pitch_out wd ht =
     (let (err, p, pt) = malloc_result plat (allocs w) wd ht;
          w1 = w\<lparr>calls := calls w @ [MallocPitch wd ht]\<rparr>
      in if err = cudaSuccess
         then (err, p, pt, w1\<lparr>allocs := (p, pt * ht) # allocs w1\<rparr>)
         else (err, devPtr, pitch_out, w1))"

text \<open>\<open>cudaFree(p)\<close>: nothing to do for \<open>nullptr\<close>; otherwise \<open>p\<close> must be a live allocation.\<close>

definition cudaFree :: "world \<Rightarrow> addr \<Rightarrow> cudaError_t \<times> world" where
  "cudaFree w p =
     (let w1 = w\<lparr>calls := calls w @ [Free p]\<rparr>
      in if p = 0 then (cudaSuccess, w1)
         else if p \<in> fst ` set (allocs w1)
         then (cudaSuccess, w1\<lparr>allocs := filter (\<lambda>a. fst a \<noteq> p) (allocs w1)\<rparr>)
         else (cudaErrorInvalidDevicePointer, w1))"

text \<open>
  The strided copy of \<open>cudaMemcpy2D\<close>: \<open>ht\<close> rows of \<open>wd\<close> bytes, row \<open>r\<close> read at
  \<open>s + r * sp\<close> and written at \<open>d + r * dp\<close>.
\<close>

fun copy_row :: "(addr \<Rightarrow> byte) \<Rightarrow> addr \<Rightarrow> (addr \<Rightarrow> byte) \<Rightarrow> addr \<Rightarrow> nat \<Rightarrow> (addr \<Rightarrow> byte)" where
  "copy_row dst d src s 0 = dst"
| "copy_row dst d src s (Suc n) = (copy_row dst d src s n)(d + n := src (s + n))"

fun copy2D ::
  "(addr \<Rightarrow> byte) \<Rightarrow> addr \<Rightarrow> nat \<Rightarrow> (addr \<Rightarrow> byte) \<Rightarrow> addr \<Rightarrow> nat \<Rightarrow> nat \<Rightarrow> nat \<Rightarrow> (addr \<Rightarrow> byte)" where
  "copy2D dst d dp src s sp wd 0 = dst"
| "copy2D dst d dp src s sp wd (Suc r) =
     copy_row (copy2D dst d dp src s sp wd r) (d + r * dp) src (s + r * sp) wd"

text \<open>The rows of a device region lie in one live allocation.\<close>

definition device_region :: "world \<Rightarrow> addr \<Rightarrow> nat \<Rightarrow> nat \<Rightarrow> nat \<Rightarrow> bool" where
  "device_region w p pt wd ht \<longleftrightarrow>
     wd = 0 \<or> ht = 0 \<or>
     (p \<noteq> 0 \<and> list_ex (\<lambda>a. fst a \<le> p \<and> p + (ht - 1) * pt + wd \<le> fst a + snd a) (allocs w))"

text \<open>
  \<open>cudaMemcpy2D(dst, dpitch, src, spitch, width, height, kind)\<close>: an error, and no copy,
  when a pitch is smaller than the row width or when the device side is not inside a live
  allocation.
\<close>

definition cudaMemcpy2D ::
  "world \<Rightarrow> addr \<Rightarrow> nat \<Rightarrow> addr \<Rightarrow> nat \<Rightarrow> nat \<Rightarrow> nat \<Rightarrow> cudaMemcpyKind \<Rightarrow> cudaError_t \<times> world" where
  "cudaMemcpy2D w dst dp src sp wd ht kind =
     (let w1 = w\<lparr>calls := calls w @ [Memcpy2D dst dp src sp wd ht kind]\<rparr>
      in if dp < wd \<or> sp < wd then (cudaErrorInvalidPitchValue, w1)
         else (case kind of
            cudaMemcpyHostToDevice \<Rightarrow>
              if device_region w1 dst dp wd ht
              then (cudaSuccess, w1\<lparr>dmem := copy2D (dmem w1) dst dp (hmem w1) src sp wd ht\<rparr>)
              else (cudaErrorInvalidValue, w1)
          | cudaMemcpyDeviceToHost \<Rightarrow>
              if device_region w1 src sp wd ht
              then (cudaSuccess, w1\<lparr>hmem := copy2D (hmem w1) dst dp (dmem w1) src sp wd ht\<rparr>)
              else (cudaErrorInvalidValue, w1)))"

definition cudaCreateChannelDesc ::
  "int \<Rightarrow> int \<Rightarrow> int \<Rightarrow> int \<Rightarrow> cudaChannelFormatKind \<Rightarrow> cudaChannelFormatDesc" where
  "cudaCreateChannelDesc x y z w f =
     \<lparr>desc_x = x, desc_y = y, desc_z = z, desc_w = w, desc_f = f\<rparr>"

text \<open>
  \<open>cudaCreateTextureObject(&tex, &resDesc, &texDesc, NULL)\<close>: the handle is written on
  success only.
\<close>

definition cudaCreateTextureObject ::
  "platform \<Rightarrow> world \<Rightarrow> cudaTextureObject_t \<Rightarrow> cudaResourceDesc \<Rightarrow> cudaTextureDesc
    \<Rightarrow> cudaError_t \<times> cudaTextureObject_t \<times> world" where
  "cudaCreateTextureObject plat w tex resDesc texDesc =
     (let (err, t) = texture_result plat (textures w) resDesc texDesc;
          w1 = w\<lparr>calls := calls w @ [CreateTextureObject resDesc texDesc]\<rparr>
      in if err = cudaSuccess then (err, t, w1\<lparr>textures := t # textures w1\<rparr>)
         else (err, tex, w1))"

definition cudaDestroyTextureObject :: "world \<Rightarrow> cudaTextureObject_t \<Rightarrow> cudaError_t \<times> world" where
  "cudaDestroyTextureObject w t =
     (let w1 = w\<lparr>calls := calls w @ [DestroyTextureObject t]\<rparr>
      in if t \<in> set (textures w1)
         then (cudaSuccess, w1\<lparr>textures := filter (\<lambda>u. u \<noteq> t) (textures w1)\<rparr>)
         else (cudaErrorInvalidResourceHandle, w1))"

section \<open>Helpers of the repository that are not in the sources at hand\<close>

text \<open>
  Modelled from the spec: \<open>checkError\<close> (flowfilter/gpu/error.h) is missing. The spec
  says of every failure that it "is reported (diagnostic output) and the operation becomes
  a no-op, returning control to the caller".
\<close>

definition checkError :: "cudaError_t \<times> world \<Rightarrow> world" where
  "checkError r =
     (case r of (err, w) \<Rightarrow> if err \<noteq> cudaSuccess then w\<lparr>cerr := cerr w @ [CheckError err]\<rparr> else w)"

text \<open>
  Modelled from the spec: \<open>gpu_deleter\<close> (flowfilter/gpu/gpu_deleter.h) is missing. The
  spec says that the allocation is released "via the compute platform's deallocation
  call, never via generic memory free".
\<close>

definition gpu_deleter :: "world \<Rightarrow> addr \<Rightarrow> world" where
  "gpu_deleter w p = snd (cudaFree w p)"

section \<open>Shared pointers\<close>

text \<open>
  A \<open>std::shared_ptr<void>\<close> with a \<open>gpu_deleter\<close>: the stored pointer and the control
  block it shares with its copies (\<open>None\<close> for a default-constructed, empty one). A shared
  pointer made from a raw pointer and a deleter owns a control block also when the pointer
  is \<open>nullptr\<close>, and the deleter runs when the last owner lets go.
\<close>

record shared_ptr =
  sp_get :: addr
  sp_cb :: "nat option"

definition sp_empty :: shared_ptr where
  "sp_empty = \<lparr>sp_get = 0, sp_cb = None\<rparr>"

definition sp_make :: "world \<Rightarrow> addr \<Rightarrow> shared_ptr \<times> world" where
  "sp_make w p =
     (\<lparr>sp_get = p, sp_cb = Some (next_cb w)\<rparr>,
      w\<lparr>use_count := (use_count w)(next_cb w := 1), next_cb := Suc (next_cb w)\<rparr>)"

definition sp_copy :: "world \<Rightarrow> shared_ptr \<Rightarrow> world" where
  "sp_copy w sp =
     (case sp_cb sp of
        None \<Rightarrow> w
      | Some c \<Rightarrow> w\<lparr>use_count := (use_count w)(c := Suc (use_count w c))\<rparr>)"

definition sp_release :: "world \<Rightarrow> shared_ptr \<Rightarrow> world" where
  "sp_release w sp =
     (case sp_cb sp of
        None \<Rightarrow> w
      | Some c \<Rightarrow>
          if use_count w c \<le> 1
          then gpu_deleter (w\<lparr>use_count := (use_count w)(c := 0)\<rparr>) (sp_get sp)
          else w\<lparr>use_count := (use_count w)(c := use_count w c - 1)\<rparr>)"

text \<open>The control block of a shared pointer is one the program has made.\<close>

definition sp_known :: "world \<Rightarrow> shared_ptr \<Rightarrow> bool" where
  "sp_known w sp \<longleftrightarrow> (case sp_cb sp of None \<Rightarrow> True | Some c \<Rightarrow> c < next_cb w)"

section \<open>Host images\<close>

text \<open>
  Modelled from the spec: \<open>image_t\<close> (flowfilter/image.h) is missing. The spec gives it
  as \<open>{height:int, width:int, depth:int, pitch:int (bytes), itemSize:int (bytes),
  data:pointer}\<close>, a view over host memory that it does not own.
\<close>

record image_t =
  height :: int
  width :: int
  depth :: int
  pitch :: int
  itemSize :: int
  data :: addr

section \<open>GPUImage\<close>

record GPUImage =
  g_width :: int
  g_height :: int
  g_depth :: int
  g_pitch :: nat
  g_itemSize :: int
  ptr_dev :: shared_ptr

text \<open>The product \<open>__width*__depth*__itemSize\<close>, evaluated from the left in \<open>int\<close>.\<close>

definition row_bytes :: "GPUImage \<Rightarrow> int option" where
  "row_bytes g = do {
     wd \<leftarrow> int_mul (g_width g) (g_depth g);
     int_mul wd (g_itemSize g)
   }"

text \<open>\<open>GPUImage::GPUImage()\<close>\<close>

definition GPUImage_default :: "world \<Rightarrow> world \<times> GPUImage" where
  "GPUImage_default w =
     (let (sp, w1) = sp_make w 0;
          w2 = sp_release w1 sp_empty
      in (w2, \<lparr>g_width = 0, g_height = 0, g_depth = 0, g_pitch = 0, g_itemSize = 0,
                ptr_dev = sp\<rparr>))"

text \<open>
  \<open>GPUImage::allocate()\<close>: the new shared pointer replaces the old one, which lets go of
  what it held.
\<close>

definition allocate :: "platform \<Rightarrow> world \<Rightarrow> GPUImage \<Rightarrow> (world \<times> GPUImage) option" where
  "allocate plat w g = do {
     rb \<leftarrow> row_bytes g;
     (let (err, buffer_dev, pt, w1) =
            cudaMallocPitch plat w 0 (g_pitch g) (to_size_t rb) (to_size_t (g_height g));
          (sp, w2) = sp_make w1 buffer_dev;
          w3 = sp_release w2 (ptr_dev g);
          w4 = (if err \<noteq> cudaSuccess
                then w3\<lparr>cerr := cerr w3 @ [DeviceMemoryAllocation err]\<rparr> else w3)
      in Some (w4, g\<lparr>g_pitch := pt, ptr_dev := sp\<rparr>))
   }"

text \<open>
  \<open>GPUImage::GPUImage(height, width, depth, itemSize)\<close>. The constructor does not
  initialise \<open>__pitch\<close>: \<open>pitch0\<close> is the value the member happens to hold.
\<close>

definition GPUImage_shape ::
  "platform \<Rightarrow> world \<Rightarrow> nat \<Rightarrow> int \<Rightarrow> int \<Rightarrow> int \<Rightarrow> int \<Rightarrow> (world \<times> GPUImage) option" where
  "GPUImage_shape plat w pitch0 ht wd dp isz =
     allocate plat w
       \<lparr>g_width = wd, g_height = ht, g_depth = dp, g_pitch = pitch0, g_itemSize = isz,
        ptr_dev = sp_empty\<rparr>"

text \<open>The copy constructor and the destructor, which C++ generates.\<close>

definition GPUImage_copy :: "world \<Rightarrow> GPUImage \<Rightarrow> world \<times> GPUImage" where
  "GPUImage_copy w g = (sp_copy w (ptr_dev g), g)"

definition GPUImage_destroy :: "world \<Rightarrow> GPUImage \<Rightarrow> world" where
  "GPUImage_destroy w g = sp_release w (ptr_dev g)"

definition compareShape :: "GPUImage \<Rightarrow> image_t \<Rightarrow> bool" where
  "compareShape g img \<longleftrightarrow>
     g_height g = height img \<and> g_width g = width img \<and>
     g_depth g = depth img \<and> g_itemSize g = itemSize img"

definition upload :: "platform \<Rightarrow> world \<Rightarrow> GPUImage \<Rightarrow> image_t \<Rightarrow> (world \<times> GPUImage) option" where
  "upload plat w g img = do {
     (w1, g1) \<leftarrow>
       (if sp_get (ptr_dev g) = 0
        then allocate plat w
               (g\<lparr>g_width := width img, g_height := height img, g_depth := depth img,
                  g_itemSize := itemSize img\<rparr>)
        else Some (w, g));
     if compareShape g1 img
     then do {
       rb \<leftarrow> row_bytes g1;
       Some (checkError
               (cudaMemcpy2D w1 (sp_get (ptr_dev g1)) (g_pitch g1) (data img)
                  (to_size_t (pitch img)) (to_size_t rb) (to_size_t (g_height g1))
                  cudaMemcpyHostToDevice),
             g1)
     }
     else Some (w1\<lparr>cerr := cerr w1 @ [UploadShapesDoNotMatch]\<rparr>, g1)
   }"

text \<open>\<open>GPUImage::download\<close> is a \<open>const\<close> member: the buffer's fields stay as they are.\<close>

definition download :: "world \<Rightarrow> GPUImage \<Rightarrow> image_t \<Rightarrow> world option" where
  "download w g img =
     (if sp_get (ptr_dev g) = 0
      then Some (w\<lparr>cerr := cerr w @ [DownloadUnallocatedImage]\<rparr>)
      else if compareShape g img
      then do {
        rb \<leftarrow> row_bytes g;
        Some (checkError
                (cudaMemcpy2D w (data img) (to_size_t (pitch img)) (sp_get (ptr_dev g))
                   (g_pitch g) (to_size_t rb) (to_size_t (g_height g))
                   cudaMemcpyDeviceToHost))
      }
      else Some (w\<lparr>cerr := cerr w @ [DownloadShapesDoNotMatch]\<rparr>))"

section \<open>GPUTexture\<close>

record GPUTexture =
  t_image :: GPUImage
  t_texture :: cudaTextureObject_t
  t_validTexture :: bool

text \<open>
  \<open>GPUTexture::GPUTexture()\<close>. The constructor does not initialise \<open>__texture\<close>:
  \<open>tex0\<close> is the value the member happens to hold.
\<close>

definition GPUTexture_default :: "world \<Rightarrow> cudaTextureObject_t \<Rightarrow> world \<times> GPUTexture" where
  "GPUTexture_default w tex0 =
     (let (w1, g) = GPUImage_default w
      in (w1, \<lparr>t_image = g, t_texture = tex0, t_validTexture = False\<rparr>))"

text \<open>
  \<open>GPUTexture::configure\<close>. The accessor \<open>pitch()\<close> returns the \<open>size_t\<close> pitch as an
  \<open>int\<close>; the descriptor's fields are \<open>size_t\<close> again.
\<close>

definition configure ::
  "platform \<Rightarrow> world \<Rightarrow> GPUTexture \<Rightarrow> cudaChannelFormatKind \<Rightarrow> cudaTextureAddressMode \<Rightarrow>
   cudaTextureFilterMode \<Rightarrow> cudaTextureReadMode \<Rightarrow> (world \<times> GPUTexture) option" where
  "configure plat w t format addressMode fMode rMode =
     (let channels = g_depth (t_image t)
      in if channels > 4
         then Some (w\<lparr>cerr := cerr w @ [ChannelsGreaterThan4 channels]\<rparr>, t)
         else do {
           bitWidth \<leftarrow> int_mul 8 (g_itemSize (t_image t));
           (let w1 = bitWidth;
                w2 = (if channels \<ge> 2 then bitWidth else 0);
                w3 = (if channels \<ge> 3 then bitWidth else 0);
                w4 = (if channels = 4 then bitWidth else 0);
                channelDesc = cudaCreateChannelDesc w1 w2 w3 w4 format;
                texDesc = \<lparr>addressMode0 = addressMode, addressMode1 = addressMode,
                           filterMode = fMode, readMode = rMode, normalizedCoords = False\<rparr>;
                resDesc = \<lparr>pitch2D_desc = channelDesc,
                           pitch2D_devPtr = sp_get (ptr_dev (t_image t)),
                           pitch2D_pitchInBytes = to_size_t (size_t_to_int (g_pitch (t_image t))),
                           pitch2D_width = to_size_t (g_width (t_image t)),
                           pitch2D_height = to_size_t (g_height (t_image t))\<rparr>;
                (err, tex, wc) = cudaCreateTextureObject plat w (t_texture t) resDesc texDesc
            in if err \<noteq> cudaSuccess
               then Some (wc\<lparr>cerr := cerr wc @ [TextureCreation err]\<rparr>,
                          t\<lparr>t_texture := tex, t_validTexture := False\<rparr>)
               else Some (wc, t\<lparr>t_texture := tex, t_validTexture := True\<rparr>))
         })"

text \<open>
  \<open>GPUTexture::GPUTexture(img, format, addressMode, filterMode, readMode)\<close>. The argument
  \<open>img\<close> is passed by value: a copy that lives for the call. The member \<open>__image\<close> is
  default-constructed and then assigned; \<open>__texture\<close> and \<open>__validTexture\<close> are not
  initialised: \<open>tex0\<close> and \<open>valid0\<close> are the values the members happen to hold.
\<close>

definition GPUTexture_modes ::
  "platform \<Rightarrow> world \<Rightarrow> cudaTextureObject_t \<Rightarrow> bool \<Rightarrow> GPUImage \<Rightarrow> cudaChannelFormatKind \<Rightarrow>
   cudaTextureAddressMode \<Rightarrow> cudaTextureFilterMode \<Rightarrow> cudaTextureReadMode \<Rightarrow>
   (world \<times> GPUTexture) option" where
  "GPUTexture_modes plat w tex0 valid0 img format addressMode fMode rMode =
     (let (w1, arg) = GPUImage_copy w img;
          (w2, g0) = GPUImage_default w1;
          w3 = sp_copy w2 (ptr_dev arg);
          w4 = sp_release w3 (ptr_dev g0);
          t = \<lparr>t_image = arg, t_texture = tex0, t_validTexture = valid0\<rparr>
      in do {
        (w5, t1) \<leftarrow> configure plat w4 t format addressMode fMode rMode;
        Some (GPUImage_destroy w5 arg, t1)
      })"

text \<open>\<open>GPUTexture::GPUTexture(img, format)\<close> delegates with the default sampling modes.\<close>

definition GPUTexture_format ::
  "platform \<Rightarrow> world \<Rightarrow> cudaTextureObject_t \<Rightarrow> bool \<Rightarrow> GPUImage \<Rightarrow> cudaChannelFormatKind \<Rightarrow>
   (world \<times> GPUTexture) option" where
  "GPUTexture_format plat w tex0 valid0 img format =
     GPUTexture_modes plat w tex0 valid0 img format
       cudaAddressModeClamp cudaFilterModePoint cudaReadModeElementType"

text \<open>\<open>GPUTexture::~GPUTexture()\<close>, followed by the destructor of the member \<open>__image\<close>.\<close>

definition GPUTexture_destroy :: "world \<Rightarrow> GPUTexture \<Rightarrow> world" where
  "GPUTexture_destroy w t =
     (let w1 = (if t_validTexture t
                then checkError (cudaDestroyTextureObject w (t_texture t)) else w)
      in GPUImage_destroy w1 (t_image t))"

definition getTextureObject :: "GPUTexture \<Rightarrow> cudaTextureObject_t" where
  "getTextureObject t = t_texture t"

definition getImage :: "world \<Rightarrow> GPUTexture \<Rightarrow> world \<times> GPUImage" where
  "getImage w t = GPUImage_copy w (t_image t)"

section \<open>The life of a buffer\<close>

text \<open>
  A buffer is constructed, empty or with a shape, and then used by a sequence of uploads
  and downloads.
\<close>

datatype ctor = Construct | ConstructShape int int int int

datatype op = Upload image_t | Download image_t

definition construct :: "platform \<Rightarrow> world \<Rightarrow> nat \<Rightarrow> ctor \<Rightarrow> (world \<times> GPUImage) option" where
  "construct plat w pitch0 c =
     (case c of
        Construct \<Rightarrow> Some (GPUImage_default w)
      | ConstructShape ht wd dp isz \<Rightarrow> GPUImage_shape plat w pitch0 ht wd dp isz)"

fun run :: "platform \<Rightarrow> world \<Rightarrow> GPUImage \<Rightarrow> op list \<Rightarrow> (world \<times> GPUImage) option" where
  "run plat w g [] = Some (w, g)"
| "run plat w g (Upload img # ops) =
     (case upload plat w g img of None \<Rightarrow> None | Some (w1, g1) \<Rightarrow> run plat w1 g1 ops)"
| "run plat w g (Download img # ops) =
     (case download w g img of None \<Rightarrow> None | Some w1 \<Rightarrow> run plat w1 g ops)"

definition lifetime ::
  "platform \<Rightarrow> world \<Rightarrow> nat \<Rightarrow> ctor \<Rightarrow> op list \<Rightarrow> (world \<times> GPUImage) option" where
  "lifetime plat w pitch0 c ops =
     (case construct plat w pitch0 c of None \<Rightarrow> None | Some (w1, g) \<Rightarrow> run plat w1 g ops)"

text \<open>
  The two states the spec allows a buffer: no allocation and all shape fields zero, or an
  allocation and all shape fields positive.
\<close>

definition shape_all_zero :: "GPUImage \<Rightarrow> bool" where
  "shape_all_zero g \<longleftrightarrow> g_height g = 0 \<and> g_width g = 0 \<and> g_depth g = 0 \<and> g_itemSize g = 0"

definition shape_all_positive :: "GPUImage \<Rightarrow> bool" where
  "shape_all_positive g \<longleftrightarrow> 0 < g_height g \<and> 0 < g_width g \<and> 0 < g_depth g \<and> 0 < g_itemSize g"

definition shape_state_ok :: "GPUImage \<Rightarrow> bool" where
  "shape_state_ok g \<longleftrightarrow>
     (sp_get (ptr_dev g) = 0 \<and> shape_all_zero g) \<or>
     (sp_get (ptr_dev g) \<noteq> 0 \<and> shape_all_positive g)"

definition positive_shape :: "int \<Rightarrow> int \<Rightarrow> int \<Rightarrow> int \<Rightarrow> bool" where
  "positive_shape ht wd dp isz \<longleftrightarrow> 0 < ht \<and> ht \<le> INT_MAX \<and> 0 < wd \<and> 0 < dp \<and> 0 < isz"

definition ctor_positive :: "ctor \<Rightarrow> bool" where
  "ctor_positive c =
     (case c of Construct \<Rightarrow> True | ConstructShape ht wd dp isz \<Rightarrow> positive_shape ht wd dp isz)"

definition op_positive :: "op \<Rightarrow> bool" where
  "op_positive x =
     (case x of
        Upload img \<Rightarrow> positive_shape (height img) (width img) (depth img) (itemSize img)
      | Download img \<Rightarrow> True)"

text \<open>
  The state of a buffer whose diagnostics started at position \<open>n\<close> of the log: one of the
  two above, or no allocation with a positive shape after a reported allocation failure.
\<close>

definition shape_inv :: "nat \<Rightarrow> world \<Rightarrow> GPUImage \<Rightarrow> bool" where
  "shape_inv n w g \<longleftrightarrow> n \<le> length (cerr w) \<and>
     (shape_state_ok g \<or>
      (sp_get (ptr_dev g) = 0 \<and> shape_all_positive g \<and>
       (\<exists>e. DeviceMemoryAllocation e \<in> set (drop n (cerr w)))))"

text \<open>
  A buffer that holds an allocation the way \<open>allocate\<close> leaves it: a positive shape whose
  row size and height are in the range of \<open>int\<close>, a pitch of at least the row size, and its
  rows inside a live allocation of the device.
\<close>

definition buffer_ok :: "world \<Rightarrow> GPUImage \<Rightarrow> bool" where
  "buffer_ok w g \<longleftrightarrow>
     sp_get (ptr_dev g) \<noteq> 0 \<and> shape_all_positive g \<and> g_height g \<le> INT_MAX \<and>
     g_width g * g_depth g * g_itemSize g \<le> INT_MAX \<and>
     g_width g * g_depth g * g_itemSize g \<le> int (g_pitch g) \<and>
     device_region w (sp_get (ptr_dev g)) (g_pitch g)
       (nat (g_width g * g_depth g * g_itemSize g)) (nat (g_height g))"

section \<open>A concrete platform and a fresh program state\<close>

text \<open>
  A device with \<open>cap\<close> bytes of memory that aligns rows to 8 bytes and places an
  allocation behind the live ones; it fails when the memory is used up.
\<close>

definition sim :: "nat \<Rightarrow> platform" where
  "sim cap =
     \<lparr>malloc_result = (\<lambda>al wd ht.
         let pt = ((wd + 7) div 8) * 8;
             p = fold max (map (\<lambda>a. fst a + snd a) al) 8
         in if p + pt * ht \<le> cap then (cudaSuccess, p, pt)
            else (cudaErrorMemoryAllocation, 0, 0)),
      texture_result = (\<lambda>ts rd td.
         if pitch2D_devPtr rd = 0 then (cudaErrorInvalidValue, 0)
         else (cudaSuccess, Suc (fold max ts 0)))\<rparr>"

definition world0 :: world where
  "world0 =
     \<lparr>allocs = [], dmem = (\<lambda>a. 0), textures = [], hmem = (\<lambda>a. 0), use_count = (\<lambda>c. 0),
      next_cb = 0, cerr = [], calls = []\<rparr>"

text \<open>
  Two host images of shape 2 x 2 x 1 x 1, one with tight rows and pixels 1, 2, 3, 4, one
  zeroed with padded rows, a host image of another depth, and a buffer of the first shape
  as the constructor leaves it on the device \<open>sim 64\<close>.
\<close>

definition hostA :: image_t where
  "hostA = \<lparr>height = 2, width = 2, depth = 1, pitch = 2, itemSize = 1, data = 100\<rparr>"

definition hostB :: image_t where
  "hostB = \<lparr>height = 2, width = 2, depth = 1, pitch = 4, itemSize = 1, data = 200\<rparr>"

definition hostC :: image_t where
  "hostC = \<lparr>height = 2, width = 2, depth = 3, pitch = 6, itemSize = 1, data = 300\<rparr>"

definition world_host :: world where
  "world_host = world0\<lparr>hmem := (\<lambda>a. 0)(100 := 1, 101 := 2, 102 := 3, 103 := 4)\<rparr>"

definition bufA :: GPUImage where
  "bufA = \<lparr>g_width = 2, g_height = 2, g_depth = 1, g_pitch = 8, g_itemSize = 1,
            ptr_dev = \<lparr>sp_get = 8, sp_cb = Some 0\<rparr>\<rparr>"

definition worldA :: world where
  "worldA = world_host\<lparr>allocs := [(8, 16)], use_count := (\<lambda>c. 0)(0 := 1), next_cb := 1,
     calls := [MallocPitch 2 2]\<rparr>"

text \<open>The buffer that the constructor leaves on a device without free memory.\<close>

definition partial_buf :: GPUImage where
  "partial_buf = \<lparr>g_width = 2, g_height = 2, g_depth = 1, g_pitch = 0, g_itemSize = 1,
                   ptr_dev = \<lparr>sp_get = 0, sp_cb = Some 0\<rparr>\<rparr>"

section \<open>Properties\<close>

subsection \<open>The concrete buffer is what the constructor builds\<close>

lemma to_size_t_numeral [simp]:
  "to_size_t 0 = 0" "to_size_t 1 = 1" "to_size_t 2 = 2" "to_size_t 4 = 4" "to_size_t 6 = 6"
  by (simp_all add: to_size_t_def)

lemma row_bytes_bufA: "row_bytes bufA = Some 2"
  by (simp add: row_bytes_def bufA_def int_mul_def INT_MIN_def INT_MAX_def)

lemma GPUImage_shape_bufA: "GPUImage_shape (sim 64) world_host 0 2 2 1 1 = Some (worldA, bufA)"
  by (simp add: GPUImage_shape_def allocate_def row_bytes_def int_mul_def INT_MIN_def INT_MAX_def
      cudaMallocPitch_def sim_def sp_make_def sp_release_def sp_empty_def world_host_def
      world0_def worldA_def bufA_def)

subsection \<open>Shape validation\<close>

text \<open>
  C4. On an allocated buffer, an upload or a download with a host image whose height,
  width, depth or item size differs from the buffer's copies nothing: the buffer (shape,
  pitch, device pointer) is returned as it was, and the program state (device memory and
  allocations, host memory, platform calls) is as before but for the diagnostic written.
\<close>

theorem mismatch_copies_nothing:
  assumes "sp_get (ptr_dev g) \<noteq> 0"
    and "(g_height g, g_width g, g_depth g, g_itemSize g) \<noteq>
         (height img, width img, depth img, itemSize img)"
  shows "upload plat w g img = Some (w\<lparr>cerr := cerr w @ [UploadShapesDoNotMatch]\<rparr>, g) \<and>
         download w g img = Some (w\<lparr>cerr := cerr w @ [DownloadShapesDoNotMatch]\<rparr>)"
  using assms by (auto simp add: upload_def download_def compareShape_def)

theorem mismatch_copies_nothing_witness:
  "sp_get (ptr_dev bufA) \<noteq> 0 \<and>
   (g_height bufA, g_width bufA, g_depth bufA, g_itemSize bufA) \<noteq>
     (height hostC, width hostC, depth hostC, itemSize hostC) \<and>
   upload (sim 64) worldA bufA hostC =
     Some (worldA\<lparr>cerr := cerr worldA @ [UploadShapesDoNotMatch]\<rparr>, bufA) \<and>
   download worldA bufA hostC =
     Some (worldA\<lparr>cerr := cerr worldA @ [DownloadShapesDoNotMatch]\<rparr>)"
  using mismatch_copies_nothing [of bufA hostC "sim 64" worldA]
  by (simp add: bufA_def hostC_def)

text \<open>
  C5. A download from an unallocated buffer reports the unallocated image and does nothing
  else: no platform call, host and device memory as before; the buffer is not touched
  (\<open>download\<close> is a const member and returns the program state only).
\<close>

theorem download_unallocated:
  assumes "sp_get (ptr_dev g) = 0"
  shows "download w g img = Some (w\<lparr>cerr := cerr w @ [DownloadUnallocatedImage]\<rparr>)"
  using assms by (simp add: download_def)

theorem download_unallocated_witness:
  "sp_get (ptr_dev (snd (GPUImage_default world_host))) = 0 \<and>
   download (fst (GPUImage_default world_host)) (snd (GPUImage_default world_host)) hostB =
     Some ((fst (GPUImage_default world_host))
       \<lparr>cerr := cerr (fst (GPUImage_default world_host)) @ [DownloadUnallocatedImage]\<rparr>)"
  using download_unallocated
    [of "snd (GPUImage_default world_host)" "fst (GPUImage_default world_host)" hostB]
  by (simp add: GPUImage_default_def sp_make_def)

text \<open>
  C10. \<open>compareShape\<close> compares the height, the width, the depth and the item size, and
  nothing else: the host image's pitch and data pointer can be replaced by any values. So
  with a host pitch \<open>pt\<close> smaller than the row size, an upload to and a download from an
  allocated buffer of the same shape both issue their \<open>cudaMemcpy2D\<close> call, with that
  pitch.
\<close>

theorem validation_ignores_pitch:
  assumes "sp_get (ptr_dev g) \<noteq> 0"
    and "row_bytes g = Some rb"
    and "pt < rb"
    and "img' = img\<lparr>pitch := pt, data := q\<rparr>"
  shows "(compareShape g img' \<longleftrightarrow>
            g_height g = height img \<and> g_width g = width img \<and>
            g_depth g = depth img \<and> g_itemSize g = itemSize img) \<and>
         (compareShape g img' \<longrightarrow>
            (\<exists>w1 w2. upload plat w g img' = Some (w1, g) \<and> download w g img' = Some w2 \<and>
               calls w1 = calls w @
                 [Memcpy2D (sp_get (ptr_dev g)) (g_pitch g) q (to_size_t pt) (to_size_t rb)
                    (to_size_t (g_height g)) cudaMemcpyHostToDevice] \<and>
               calls w2 = calls w @
                 [Memcpy2D q (to_size_t pt) (sp_get (ptr_dev g)) (g_pitch g) (to_size_t rb)
                    (to_size_t (g_height g)) cudaMemcpyDeviceToHost]))"
  using assms
  by (auto simp add: upload_def download_def compareShape_def cudaMemcpy2D_def checkError_def
      Let_def split: cudaMemcpyKind.splits)

theorem validation_ignores_pitch_witness:
  "sp_get (ptr_dev bufA) \<noteq> 0 \<and> row_bytes bufA = Some 2 \<and> (1::int) < 2 \<and>
   compareShape bufA (hostA\<lparr>pitch := 1, data := 100\<rparr>) \<and>
   (\<exists>w1 w2. upload (sim 64) worldA bufA (hostA\<lparr>pitch := 1, data := 100\<rparr>) = Some (w1, bufA) \<and>
      download worldA bufA (hostA\<lparr>pitch := 1, data := 100\<rparr>) = Some w2 \<and>
      calls w1 = calls worldA @ [Memcpy2D 8 8 100 1 2 2 cudaMemcpyHostToDevice] \<and>
      calls w2 = calls worldA @ [Memcpy2D 100 1 8 8 2 2 cudaMemcpyDeviceToHost])"
  using validation_ignores_pitch
    [where g = bufA and rb = 2 and pt = 1 and img = hostA and q = 100 and plat = "sim 64"
       and w = worldA and img' = "hostA\<lparr>pitch := 1, data := 100\<rparr>"]
    row_bytes_bufA
  by (simp add: bufA_def hostA_def)

subsection \<open>Textures\<close>

lemma configure_too_many:
  "4 < g_depth (t_image t) \<Longrightarrow>
   configure plat w t format am fm rm =
     Some (w\<lparr>cerr := cerr w @ [ChannelsGreaterThan4 (g_depth (t_image t))]\<rparr>, t)"
  by (simp add: configure_def)

lemma cudaFree_null: "cudaFree w 0 = (cudaSuccess, w\<lparr>calls := calls w @ [Free 0]\<rparr>)"
  by (simp add: cudaFree_def)

lemma texture_too_many:
  assumes "4 < g_depth img" and "sp_known w (ptr_dev img)"
  shows "\<exists>w'. GPUTexture_modes plat w tex0 valid0 img format am fm rm =
     Some (w', \<lparr>t_image = img, t_texture = tex0, t_validTexture = valid0\<rparr>) \<and>
     cerr w' = cerr w @ [ChannelsGreaterThan4 (g_depth img)] \<and>
     textures w' = textures w \<and> allocs w' = allocs w \<and> calls w' = calls w @ [Free 0]"
  using assms
  by (auto simp add: GPUTexture_modes_def GPUImage_copy_def GPUImage_default_def sp_make_def
      sp_release_def sp_empty_def sp_copy_def configure_too_many gpu_deleter_def cudaFree_null
      GPUImage_destroy_def sp_known_def Let_def split: option.splits)

lemma configure_channels:
  assumes "1 \<le> g_depth (t_image t)" and "g_depth (t_image t) \<le> 4"
    and "configure plat w t format am fm rm = Some (w', t')"
  shows "\<exists>rd td. calls w' = calls w @ [CreateTextureObject rd td] \<and>
     [desc_x (pitch2D_desc rd), desc_y (pitch2D_desc rd), desc_z (pitch2D_desc rd),
      desc_w (pitch2D_desc rd)] =
       map (\<lambda>k. if k < g_depth (t_image t) then 8 * g_itemSize (t_image t) else 0) [0, 1, 2, 3] \<and>
     desc_f (pitch2D_desc rd) = format"
  using assms
  by (auto simp add: configure_def int_mul_def cudaCreateChannelDesc_def
      cudaCreateTextureObject_def Let_def split: if_splits prod.splits)

lemma configure_use_count:
  "configure plat w t format am fm rm = Some (w', t') \<Longrightarrow>
   use_count w' = use_count w \<and> next_cb w' = next_cb w \<and> allocs w' = allocs w \<and>
   t_image t' = t_image t"
  by (auto simp add: configure_def cudaCreateTextureObject_def Let_def
      split: if_splits prod.splits Option.bind_splits)

lemma texture_prepare:
  assumes "sp_known w (ptr_dev img)"
  defines "w4 \<equiv>
    sp_release (sp_copy (fst (GPUImage_default (fst (GPUImage_copy w img)))) (ptr_dev img))
      (ptr_dev (snd (GPUImage_default (fst (GPUImage_copy w img)))))"
  shows "calls w4 = calls w @ [Free 0]" and "allocs w4 = allocs w" and "cerr w4 = cerr w"
    and "textures w4 = textures w" and "dmem w4 = dmem w" and "hmem w4 = hmem w"
    and "sp_cb (ptr_dev img) = Some c \<Longrightarrow> use_count w4 c = Suc (Suc (use_count w c))"
  using assms(1) unfolding w4_def
  by (auto simp add: GPUImage_copy_def GPUImage_default_def sp_make_def
      sp_release_def sp_empty_def sp_copy_def gpu_deleter_def cudaFree_null sp_known_def Let_def
      split: option.splits)

lemma destroy_shared:
  assumes "sp_cb (ptr_dev g) = Some c" and "1 < use_count w c"
  shows "GPUImage_destroy w g = w\<lparr>use_count := (use_count w)(c := use_count w c - 1)\<rparr>"
  using assms by (simp add: GPUImage_destroy_def sp_release_def)

lemma destroy_empty:
  assumes "sp_cb (ptr_dev g) = None"
  shows "GPUImage_destroy w g = w"
  using assms by (simp add: GPUImage_destroy_def sp_release_def)

lemma texture_modes_unfold:
  assumes "GPUTexture_modes plat w tex0 valid0 img format am fm rm = Some (w', t)"
  defines "w4 \<equiv>
    sp_release (sp_copy (fst (GPUImage_default (fst (GPUImage_copy w img)))) (ptr_dev img))
      (ptr_dev (snd (GPUImage_default (fst (GPUImage_copy w img)))))"
  obtains w5 where
    "configure plat w4 \<lparr>t_image = img, t_texture = tex0, t_validTexture = valid0\<rparr>
       format am fm rm = Some (w5, t)"
    and "w' = GPUImage_destroy w5 img"
  using assms(1) unfolding w4_def
  by (auto simp add: GPUTexture_modes_def GPUImage_copy_def Let_def
      split: prod.splits Option.bind_splits)

text \<open>
  C9. A texture constructed over a buffer of depth 1 to 4 asks the platform for one
  texture object, and the channel descriptor it passes has the bit width
  \<open>8 * itemSize\<close> in each of the first \<open>depth\<close> channels (x, y, z, w in this order) and 0
  in the channels beyond, with the requested format kind.
\<close>

theorem channel_widths:
  assumes "1 \<le> g_depth img" and "g_depth img \<le> 4"
    and "sp_known w (ptr_dev img)"
    and "GPUTexture_modes plat w tex0 valid0 img format am fm rm = Some (w', t)"
  shows "\<exists>rd td. calls w' = calls w @ [Free 0, CreateTextureObject rd td] \<and>
     [desc_x (pitch2D_desc rd), desc_y (pitch2D_desc rd), desc_z (pitch2D_desc rd),
      desc_w (pitch2D_desc rd)] =
       map (\<lambda>k. if k < g_depth img then 8 * g_itemSize img else 0) [0, 1, 2, 3] \<and>
     desc_f (pitch2D_desc rd) = format"
proof -
  define w4 where "w4 =
    sp_release (sp_copy (fst (GPUImage_default (fst (GPUImage_copy w img)))) (ptr_dev img))
      (ptr_dev (snd (GPUImage_default (fst (GPUImage_copy w img)))))"
  define t0 where "t0 = \<lparr>t_image = img, t_texture = tex0, t_validTexture = valid0\<rparr>"
  from assms(4) obtain w5 where c: "configure plat w4 t0 format am fm rm = Some (w5, t)"
    and w': "w' = GPUImage_destroy w5 img"
    unfolding w4_def t0_def by (rule texture_modes_unfold)
  have c4: "calls w4 = calls w @ [Free 0]"
    unfolding w4_def using assms(3) by (rule texture_prepare)
  have u5: "use_count w5 = use_count w4"
    using configure_use_count [OF c] by simp
  have "calls w' = calls w5"
  proof (cases "sp_cb (ptr_dev img)")
    case None
    then show ?thesis by (simp add: w' destroy_empty)
  next
    case (Some c)
    then have "use_count w4 c = Suc (Suc (use_count w c))"
      unfolding w4_def using assms(3) by (simp add: texture_prepare)
    then show ?thesis using Some u5 by (simp add: w' destroy_shared)
  qed
  moreover from configure_channels [OF _ _ c] assms(1,2)
  obtain rd td where "calls w5 = calls w4 @ [CreateTextureObject rd td]"
    and "[desc_x (pitch2D_desc rd), desc_y (pitch2D_desc rd), desc_z (pitch2D_desc rd),
      desc_w (pitch2D_desc rd)] =
       map (\<lambda>k. if k < g_depth img then 8 * g_itemSize img else 0) [0, 1, 2, 3]"
    and "desc_f (pitch2D_desc rd) = format"
    by (auto simp add: t0_def)
  ultimately show ?thesis using c4 by simp
qed

theorem channel_widths_witness:
  "(1::int) \<le> g_depth bufA \<and> g_depth bufA \<le> 4 \<and> sp_known worldA (ptr_dev bufA) \<and>
   (\<exists>w' t rd td. GPUTexture_modes (sim 64) worldA 0 False bufA cudaChannelFormatKindUnsigned
        cudaAddressModeClamp cudaFilterModePoint cudaReadModeElementType = Some (w', t) \<and>
      calls w' = calls worldA @ [Free 0, CreateTextureObject rd td] \<and>
      pitch2D_desc rd = \<lparr>desc_x = 8, desc_y = 0, desc_z = 0, desc_w = 0,
        desc_f = cudaChannelFormatKindUnsigned\<rparr>)"
proof -
  have 1: "(1::int) \<le> g_depth bufA" "g_depth bufA \<le> 4" "sp_known worldA (ptr_dev bufA)"
    by (simp_all add: bufA_def worldA_def sp_known_def)
  obtain w' t where 2: "GPUTexture_modes (sim 64) worldA 0 False bufA cudaChannelFormatKindUnsigned
        cudaAddressModeClamp cudaFilterModePoint cudaReadModeElementType = Some (w', t)"
    by (simp add: GPUTexture_modes_def GPUImage_copy_def GPUImage_default_def sp_make_def
      sp_release_def sp_empty_def sp_copy_def gpu_deleter_def cudaFree_null Let_def configure_def
      int_mul_def INT_MIN_def INT_MAX_def cudaCreateTextureObject_def sim_def bufA_def
      worldA_def world_host_def world0_def GPUImage_destroy_def)
  from channel_widths [OF 1 2] 1 2 show ?thesis
    by (auto simp add: bufA_def)
qed


text \<open>
  C1. Evaluation at a buffer of depth 5 (shape 2 x 2 x 5 x 1, built by the constructor)
  when the uninitialised member \<open>__validTexture\<close> holds \<open>true\<close>: the constructor of the
  texture reports the channel count, creates no texture object and makes no call to create
  one, but the validity flag of the texture it leaves is \<open>true\<close>: \<open>configure\<close> returns
  without writing it.
\<close>

theorem too_many_channels_flag_not_written:
  "do {
     (w, g) \<leftarrow> GPUImage_shape (sim 64) world0 0 2 2 5 1;
     (w', t) \<leftarrow> GPUTexture_format (sim 64) w 7 True g cudaChannelFormatKindUnsigned;
     Some (g_depth g, t_validTexture t, cerr w', textures w', calls w')
   } = Some (5, True, [ChannelsGreaterThan4 5], [], [MallocPitch 10 2, Free 0])"
  by (simp add: GPUImage_shape_def allocate_def row_bytes_def int_mul_def INT_MIN_def
      INT_MAX_def to_size_t_def cudaMallocPitch_def sim_def sp_make_def sp_release_def
      sp_empty_def world0_def GPUTexture_format_def GPUTexture_modes_def GPUImage_copy_def
      GPUImage_default_def sp_copy_def configure_too_many gpu_deleter_def cudaFree_null
      GPUImage_destroy_def)

subsection \<open>The concrete platform and the evaluation of copies\<close>

lemma fold_max_ge: "(a::nat) \<le> fold max xs a"
proof (induction xs arbitrary: a)
  case Nil
  then show ?case by simp
next
  case (Cons x xs)
  have "a \<le> max x a" by simp
  also have "\<dots> \<le> fold max xs (max x a)" by (rule Cons.IH)
  finally show ?case by simp
qed

lemma sim_contract: "platform_contract (sim cap)"
proof -
  have "8 \<le> fold max xs (8::nat)" for xs by (rule fold_max_ge)
  then have "fold max xs (8::nat) \<noteq> 0" for xs by (metis not_numeral_le_zero)
  moreover have "wd \<le> (wd + 7) div 8 * 8" for wd :: nat by presburger
  ultimately show ?thesis
    by (auto simp add: platform_contract_def sim_def Let_def split: if_splits)
qed

lemma copy_row_numeral:
  "copy_row dst d src s (numeral k) =
     (copy_row dst d src s (pred_numeral k))(d + pred_numeral k := src (s + pred_numeral k))"
  by (simp add: numeral_eq_Suc)

lemma copy2D_numeral: "copy2D dst d dp src s sp wd (numeral k) =
     copy_row (copy2D dst d dp src s sp wd (pred_numeral k)) (d + pred_numeral k * dp) src
       (s + pred_numeral k * sp) wd"
  by (simp add: numeral_eq_Suc)

lemma copy_row_1: "copy_row dst d src s 1 = dst(d := src s)"
  by simp

lemma copy2D_1: "copy2D dst d dp src s sp wd 1 = copy_row dst d src s wd"
  by simp

lemma lifetime_bufA:
  "\<exists>w'. lifetime (sim 64) world_host 0 (ConstructShape 2 2 1 1) [Upload hostA, Download hostB] =
          Some (w', bufA) \<and>
        map (hmem w') [200, 201, 202, 203, 204, 205, 206, 207] = [1, 2, 0, 0, 3, 4, 0, 0] \<and>
        cerr w' = []"
  apply (simp add: lifetime_def construct_def GPUImage_shape_bufA)
  apply (simp add: upload_def download_def bufA_def
     compareShape_def hostA_def hostB_def row_bytes_def int_mul_def INT_MIN_def INT_MAX_def
     cudaMemcpy2D_def device_region_def worldA_def world_host_def world0_def checkError_def Let_def
     copy_row_numeral copy2D_numeral copy_row_1 copy2D_1)
  done

subsection \<open>The pitch of an allocated buffer\<close>

lemma row_bytes_Some:
  assumes "row_bytes g = Some rb"
  shows "rb = g_width g * g_depth g * g_itemSize g" and "INT_MIN \<le> rb" and "rb \<le> INT_MAX"
  using assms
  by (auto simp add: row_bytes_def int_mul_def split: Option.bind_splits if_splits)

lemma to_size_t_nat: "0 \<le> i \<Longrightarrow> i \<le> INT_MAX \<Longrightarrow> to_size_t i = nat i"
  by (simp add: to_size_t_def INT_MAX_def)

lemma to_size_t_ge: "i \<le> INT_MAX \<Longrightarrow> i \<le> int (to_size_t i)"
  by (cases "0 \<le> i") (simp_all add: to_size_t_nat)

lemma allocate_result:
  assumes "allocate plat w g = Some (w', g')"
  shows "\<exists>rb err p pt. row_bytes g = Some rb \<and>
     malloc_result plat (allocs w) (to_size_t rb) (to_size_t (g_height g)) = (err, p, pt) \<and>
     (err = cudaSuccess \<longrightarrow> sp_get (ptr_dev g') = p \<and> g_pitch g' = pt) \<and>
     (err \<noteq> cudaSuccess \<longrightarrow> sp_get (ptr_dev g') = 0 \<and> g_pitch g' = g_pitch g) \<and>
     g_width g' = g_width g \<and> g_height g' = g_height g \<and> g_depth g' = g_depth g \<and>
     g_itemSize g' = g_itemSize g"
  using assms
  by (auto simp add: allocate_def cudaMallocPitch_def sp_make_def Let_def
      split: Option.bind_splits prod.splits if_splits)

lemma allocate_pitch:
  assumes "platform_contract plat" and "allocate plat w g = Some (w', g')"
    and "sp_get (ptr_dev g') \<noteq> 0"
  shows "g_width g' * g_depth g' * g_itemSize g' \<le> int (g_pitch g')"
proof -
  from allocate_result [OF assms(2)] obtain rb err p pt where rb: "row_bytes g = Some rb"
    and m: "malloc_result plat (allocs w) (to_size_t rb) (to_size_t (g_height g)) = (err, p, pt)"
    and ok: "err = cudaSuccess \<longrightarrow> sp_get (ptr_dev g') = p \<and> g_pitch g' = pt"
    and bad: "err \<noteq> cudaSuccess \<longrightarrow> sp_get (ptr_dev g') = 0 \<and> g_pitch g' = g_pitch g"
    and same: "g_width g' = g_width g" "g_depth g' = g_depth g" "g_itemSize g' = g_itemSize g"
    by blast
  from bad assms(3) have err: "err = cudaSuccess" by auto
  with m assms(1) have "to_size_t rb \<le> pt" by (auto simp add: platform_contract_def)
  moreover have "rb \<le> int (to_size_t rb)" using row_bytes_Some(3) [OF rb] by (rule to_size_t_ge)
  ultimately have "rb \<le> int (g_pitch g')" using ok err by simp
  then show ?thesis using row_bytes_Some(1) [OF rb] same by simp
qed

lemma upload_buffer:
  assumes "upload plat w g img = Some (w', g')"
  shows "if sp_get (ptr_dev g) = 0
         then \<exists>w1. allocate plat w
               (g\<lparr>g_width := width img, g_height := height img, g_depth := depth img,
                  g_itemSize := itemSize img\<rparr>) = Some (w1, g')
         else g' = g"
  using assms by (auto simp add: upload_def split: Option.bind_splits if_splits)

lemma upload_pitch:
  assumes "platform_contract plat" and "upload plat w g img = Some (w', g')"
    and "sp_get (ptr_dev g) \<noteq> 0 \<longrightarrow> g_width g * g_depth g * g_itemSize g \<le> int (g_pitch g)"
    and "sp_get (ptr_dev g') \<noteq> 0"
  shows "g_width g' * g_depth g' * g_itemSize g' \<le> int (g_pitch g')"
proof (cases "sp_get (ptr_dev g) = 0")
  case True
  with upload_buffer [OF assms(2)] obtain w1 where
    "allocate plat w (g\<lparr>g_width := width img, g_height := height img, g_depth := depth img,
                  g_itemSize := itemSize img\<rparr>) = Some (w1, g')" by auto
  from allocate_pitch [OF assms(1) this assms(4)] show ?thesis .
next
  case False
  with upload_buffer [OF assms(2)] have "g' = g" by simp
  with assms(3) False show ?thesis by simp
qed

lemma run_pitch:
  assumes "platform_contract plat"
  shows "run plat w g ops = Some (w', g') \<Longrightarrow>
    (sp_get (ptr_dev g) \<noteq> 0 \<longrightarrow> g_width g * g_depth g * g_itemSize g \<le> int (g_pitch g)) \<Longrightarrow>
    sp_get (ptr_dev g') \<noteq> 0 \<Longrightarrow>
    g_width g' * g_depth g' * g_itemSize g' \<le> int (g_pitch g')"
proof (induction ops arbitrary: w g)
  case Nil
  then show ?case by simp
next
  case (Cons a ops)
  show ?case
  proof (cases a)
    case (Upload img)
    with Cons.prems(1) obtain w1 g1 where u: "upload plat w g img = Some (w1, g1)"
      and r: "run plat w1 g1 ops = Some (w', g')"
      by (auto split: option.splits)
    have "sp_get (ptr_dev g1) \<noteq> 0 \<longrightarrow> g_width g1 * g_depth g1 * g_itemSize g1 \<le> int (g_pitch g1)"
      using upload_pitch [OF assms u Cons.prems(2)] by blast
    from Cons.IH [OF r this Cons.prems(3)] show ?thesis .
  next
    case (Download img)
    with Cons.prems(1) obtain w1 where r: "run plat w1 g ops = Some (w', g')"
      by (auto split: option.splits)
    from Cons.IH [OF r Cons.prems(2) Cons.prems(3)] show ?thesis .
  qed
qed

lemma construct_pitch:
  assumes "platform_contract plat" and "construct plat w pitch0 c = Some (w', g)"
    and "sp_get (ptr_dev g) \<noteq> 0"
  shows "g_width g * g_depth g * g_itemSize g \<le> int (g_pitch g)"
proof (cases c)
  case Construct
  with assms(2,3) show ?thesis
    by (auto simp add: construct_def GPUImage_default_def sp_make_def Let_def)
next
  case (ConstructShape ht wd dp isz)
  with assms(2) have "allocate plat w \<lparr>g_width = wd, g_height = ht, g_depth = dp, g_pitch = pitch0,
      g_itemSize = isz, ptr_dev = sp_empty\<rparr> = Some (w', g)"
    by (simp add: construct_def GPUImage_shape_def)
  from allocate_pitch [OF assms(1) this assms(3)] show ?thesis .
qed

text \<open>
  C6. On a platform that keeps the contract of \<open>cudaMallocPitch\<close>, a buffer that holds an
  allocation has a recorded pitch of at least \<open>width * depth * itemSize\<close>, after its
  construction and after any sequence of uploads and downloads; in particular the
  constructor called with a shape leaves a pitch of at least the row size it was given.
\<close>

theorem pitch_covers_row:
  assumes "platform_contract plat"
    and "lifetime plat w pitch0 c ops = Some (w', g)"
    and "sp_get (ptr_dev g) \<noteq> 0"
  shows "g_width g * g_depth g * g_itemSize g \<le> int (g_pitch g) \<and>
         (c = ConstructShape ht wd dp isz \<and> ops = [] \<longrightarrow> wd * dp * isz \<le> int (g_pitch g))"
proof -
  from assms(2) obtain w1 g1 where c: "construct plat w pitch0 c = Some (w1, g1)"
    and r: "run plat w1 g1 ops = Some (w', g)"
    by (auto simp add: lifetime_def split: option.splits)
  have "sp_get (ptr_dev g1) \<noteq> 0 \<longrightarrow> g_width g1 * g_depth g1 * g_itemSize g1 \<le> int (g_pitch g1)"
    using construct_pitch [OF assms(1) c] by blast
  from run_pitch [OF assms(1) r this assms(3)]
  have 1: "g_width g * g_depth g * g_itemSize g \<le> int (g_pitch g)" .
  have "wd * dp * isz \<le> int (g_pitch g)" if "c = ConstructShape ht wd dp isz" "ops = []"
  proof -
    from that c r have "allocate plat w \<lparr>g_width = wd, g_height = ht, g_depth = dp, g_pitch = pitch0,
      g_itemSize = isz, ptr_dev = sp_empty\<rparr> = Some (w', g)"
      by (simp add: construct_def GPUImage_shape_def)
    then have "g_width g = wd \<and> g_depth g = dp \<and> g_itemSize g = isz"
      using allocate_result by fastforce
    with 1 show ?thesis by simp
  qed
  with 1 show ?thesis by blast
qed

theorem pitch_covers_row_witness:
  "platform_contract (sim 64) \<and>
   (\<exists>w1 w2.
      lifetime (sim 64) world_host 0 (ConstructShape 2 2 1 1) [] = Some (w1, bufA) \<and>
      lifetime (sim 64) world_host 0 (ConstructShape 2 2 1 1) [Upload hostA, Download hostB] =
        Some (w2, bufA)) \<and>
   sp_get (ptr_dev bufA) \<noteq> 0 \<and>
   g_width bufA * g_depth bufA * g_itemSize bufA \<le> int (g_pitch bufA) \<and>
   (2::int) * 1 * 1 \<le> int (g_pitch bufA)"
proof -
  have 1: "lifetime (sim 64) world_host 0 (ConstructShape 2 2 1 1) [] = Some (worldA, bufA)"
    by (simp add: lifetime_def construct_def GPUImage_shape_bufA)
  from lifetime_bufA obtain w2 where
    2: "lifetime (sim 64) world_host 0 (ConstructShape 2 2 1 1) [Upload hostA, Download hostB] =
        Some (w2, bufA)"
    by blast
  have 3: "sp_get (ptr_dev bufA) \<noteq> 0" by (simp add: bufA_def)
  from pitch_covers_row [OF sim_contract 1 3, of 2 2 1 1]
    pitch_covers_row [OF sim_contract 2 3, of 2 2 1 1] sim_contract 1 2 3
  show ?thesis by auto
qed

subsection \<open>The states of a buffer\<close>

text \<open>
  C7, as stated, fails: on a device without free memory the constructor called with the
  shape 2 x 2 x 1 x 1 reports the allocation failure and leaves a buffer without an
  allocation whose shape fields are 2, 2, 1, 1.
\<close>

theorem partial_state_after_failed_allocation:
  "map_option snd (lifetime (sim 0) world0 0 (ConstructShape 2 2 1 1) []) = Some partial_buf \<and>
   map_option (cerr \<circ> fst) (lifetime (sim 0) world0 0 (ConstructShape 2 2 1 1) []) =
     Some [DeviceMemoryAllocation cudaErrorMemoryAllocation] \<and>
   sp_get (ptr_dev partial_buf) = 0 \<and> g_height partial_buf = 2 \<and>
   \<not> shape_state_ok partial_buf"
  by (simp add: lifetime_def construct_def GPUImage_shape_def allocate_def row_bytes_def
      int_mul_def INT_MIN_def INT_MAX_def cudaMallocPitch_def sim_def sp_make_def sp_release_def
      sp_empty_def world0_def shape_state_ok_def shape_all_zero_def shape_all_positive_def
      partial_buf_def)

lemma sp_release_cerr: "cerr (sp_release w sp) = cerr w"
  by (simp add: sp_release_def gpu_deleter_def cudaFree_def Let_def split: option.splits)

lemma allocate_cerr:
  assumes "allocate plat w g = Some (w', g')"
  shows "if sp_get (ptr_dev g') = 0 \<and> (\<exists>rb. row_bytes g = Some rb \<and>
            fst (malloc_result plat (allocs w) (to_size_t rb) (to_size_t (g_height g))) \<noteq> cudaSuccess)
         then \<exists>e. cerr w' = cerr w @ [DeviceMemoryAllocation e]
         else cerr w' = cerr w \<and> (\<exists>rb p pt. row_bytes g = Some rb \<and>
            malloc_result plat (allocs w) (to_size_t rb) (to_size_t (g_height g)) = (cudaSuccess, p, pt)
            \<and> sp_get (ptr_dev g') = p)"
  using assms
  by (auto simp add: allocate_def cudaMallocPitch_def sp_make_def Let_def sp_release_cerr
      split: Option.bind_splits prod.splits if_splits)

lemma positive_row_bytes:
  assumes "row_bytes g = Some rb" and "0 < g_width g" and "0 < g_depth g" and "0 < g_itemSize g"
  shows "0 < to_size_t rb"
proof -
  from assms have "0 < rb" "rb \<le> INT_MAX"
    by (auto simp add: row_bytes_def int_mul_def split: Option.bind_splits if_splits)
  then show ?thesis by (simp add: to_size_t_nat)
qed

lemma allocate_state:
  assumes "platform_contract plat" and "allocate plat w g = Some (w', g')"
    and "positive_shape (g_height g) (g_width g) (g_depth g) (g_itemSize g)"
  shows "shape_all_positive g' \<and>
    (sp_get (ptr_dev g') \<noteq> 0 \<and> cerr w' = cerr w \<or>
     sp_get (ptr_dev g') = 0 \<and> (\<exists>e. cerr w' = cerr w @ [DeviceMemoryAllocation e]))"
proof -
  from allocate_result [OF assms(2)] assms(3) have pos: "shape_all_positive g'"
    by (auto simp add: shape_all_positive_def positive_shape_def)
  show ?thesis
  proof (cases "sp_get (ptr_dev g') = 0 \<and> (\<exists>rb. row_bytes g = Some rb \<and>
            fst (malloc_result plat (allocs w) (to_size_t rb) (to_size_t (g_height g))) \<noteq> cudaSuccess)")
    case True
    with allocate_cerr [OF assms(2)] pos show ?thesis by auto
  next
    case False
    with allocate_cerr [OF assms(2)] obtain rb p pt where c: "cerr w' = cerr w"
      and rb: "row_bytes g = Some rb"
      and m: "malloc_result plat (allocs w) (to_size_t rb) (to_size_t (g_height g)) = (cudaSuccess, p, pt)"
      and p: "sp_get (ptr_dev g') = p"
      by auto
    have "0 < to_size_t rb" using rb assms(3)
      by (auto intro: positive_row_bytes simp add: positive_shape_def)
    moreover have "0 < to_size_t (g_height g)" using assms(3)
      by (simp add: positive_shape_def to_size_t_nat)
    ultimately have "p \<noteq> 0" using assms(1) m by (auto simp add: platform_contract_def)
    with p c pos show ?thesis by simp
  qed
qed

lemma checkError_cerr: "\<exists>ds. cerr (checkError (cudaMemcpy2D w a b c d e f k)) = cerr w @ ds"
  by (auto simp add: checkError_def cudaMemcpy2D_def Let_def split: cudaMemcpyKind.splits)

lemma download_cerr:
  assumes "download w g img = Some w'"
  shows "\<exists>ds. cerr w' = cerr w @ ds"
  using assms checkError_cerr
  by (auto simp add: download_def split: if_splits Option.bind_splits)

lemma upload_tail:
  assumes "upload plat w g img = Some (w', g')"
  shows "\<exists>w1. (\<exists>ds. cerr w' = cerr w1 @ ds) \<and>
     (if sp_get (ptr_dev g) = 0
      then allocate plat w
               (g\<lparr>g_width := width img, g_height := height img, g_depth := depth img,
                  g_itemSize := itemSize img\<rparr>) = Some (w1, g')
      else w1 = w \<and> g' = g)"
  using assms
  by (auto simp add: upload_def checkError_cerr split: Option.bind_splits if_splits)

lemma shape_inv_append: "shape_inv n w g \<Longrightarrow> cerr w' = cerr w @ ds \<Longrightarrow> shape_inv n w' g"
  by (auto simp add: shape_inv_def)

lemma allocate_shape_inv:
  assumes "platform_contract plat" and "allocate plat w g = Some (w', g')"
    and "positive_shape (g_height g) (g_width g) (g_depth g) (g_itemSize g)"
    and "n \<le> length (cerr w)"
  shows "shape_inv n w' g'"
  using allocate_state [OF assms(1-3)] assms(4)
  by (auto simp add: shape_inv_def shape_state_ok_def)

lemma upload_shape_inv:
  assumes "platform_contract plat" and "upload plat w g img = Some (w', g')"
    and "positive_shape (height img) (width img) (depth img) (itemSize img)"
    and "shape_inv n w g"
  shows "shape_inv n w' g'"
proof -
  from upload_tail [OF assms(2)] obtain w1 ds where c: "cerr w' = cerr w1 @ ds"
    and r: "if sp_get (ptr_dev g) = 0
      then allocate plat w
               (g\<lparr>g_width := width img, g_height := height img, g_depth := depth img,
                  g_itemSize := itemSize img\<rparr>) = Some (w1, g')
      else w1 = w \<and> g' = g"
    by blast
  have "shape_inv n w1 g'"
  proof (cases "sp_get (ptr_dev g) = 0")
    case True
    with r have "allocate plat w
               (g\<lparr>g_width := width img, g_height := height img, g_depth := depth img,
                  g_itemSize := itemSize img\<rparr>) = Some (w1, g')" by simp
    from allocate_shape_inv [OF assms(1) this] assms(3,4) show ?thesis
      by (simp add: shape_inv_def)
  next
    case False
    with r assms(4) show ?thesis by simp
  qed
  then show ?thesis using c by (rule shape_inv_append)
qed

lemma run_shape_inv:
  assumes "platform_contract plat"
  shows "run plat w g ops = Some (w', g') \<Longrightarrow> \<forall>x\<in>set ops. op_positive x \<Longrightarrow>
    shape_inv n w g \<Longrightarrow> shape_inv n w' g'"
proof (induction ops arbitrary: w g)
  case Nil
  then show ?case by simp
next
  case (Cons a ops)
  show ?case
  proof (cases a)
    case (Upload img)
    with Cons.prems(1) obtain w1 g1 where u: "upload plat w g img = Some (w1, g1)"
      and r: "run plat w1 g1 ops = Some (w', g')"
      by (auto split: option.splits)
    from Cons.prems(2) Upload
    have "positive_shape (height img) (width img) (depth img) (itemSize img)"
      by (simp add: op_positive_def)
    from upload_shape_inv [OF assms u this Cons.prems(3)] have "shape_inv n w1 g1" .
    with Cons.IH [OF r] Cons.prems(2) show ?thesis by simp
  next
    case (Download img)
    with Cons.prems(1) obtain w1 where d: "download w g img = Some w1"
      and r: "run plat w1 g ops = Some (w', g')"
      by (auto split: option.splits)
    from download_cerr [OF d] Cons.prems(3) have "shape_inv n w1 g"
      by (auto intro: shape_inv_append)
    with Cons.IH [OF r] Cons.prems(2) show ?thesis by simp
  qed
qed

lemma construct_shape_inv:
  assumes "platform_contract plat" and "construct plat w pitch0 c = Some (w', g)"
    and "ctor_positive c"
  shows "shape_inv (length (cerr w)) w' g"
proof (cases c)
  case Construct
  with assms(2) show ?thesis
    by (auto simp add: construct_def GPUImage_default_def sp_make_def Let_def shape_inv_def
        shape_state_ok_def shape_all_zero_def sp_release_cerr)
next
  case (ConstructShape ht wd dp isz)
  with assms(2) have "allocate plat w \<lparr>g_width = wd, g_height = ht, g_depth = dp, g_pitch = pitch0,
      g_itemSize = isz, ptr_dev = sp_empty\<rparr> = Some (w', g)"
    by (simp add: construct_def GPUImage_shape_def)
  from allocate_shape_inv [OF assms(1) this] assms(3) ConstructShape show ?thesis
    by (simp add: ctor_positive_def)
qed

text \<open>
  C7, amended. With positive shapes (heights in the range of \<open>int\<close>) and a platform that
  keeps the contract of \<open>cudaMallocPitch\<close>, a buffer is, after its construction and any
  sequence of uploads and downloads, in one of three states: no allocation and all shape
  fields zero; an allocation and all shape fields positive; or no allocation and all shape
  fields positive, and then an allocation failure has been reported during its life. A
  constructor whose allocation fails leaves the buffer without an allocation and with the
  shape it was given.
\<close>

theorem shape_states:
  assumes "platform_contract plat"
    and "ctor_positive c" and "\<forall>x\<in>set ops. op_positive x"
    and "lifetime plat w pitch0 c ops = Some (w', g)"
  shows "((sp_get (ptr_dev g) = 0 \<and> shape_all_zero g) \<or>
          (sp_get (ptr_dev g) \<noteq> 0 \<and> shape_all_positive g) \<or>
          (sp_get (ptr_dev g) = 0 \<and> shape_all_positive g \<and>
           (\<exists>e. DeviceMemoryAllocation e \<in> set (drop (length (cerr w)) (cerr w'))))) \<and>
         (\<forall>ht wd dp isz. c = ConstructShape ht wd dp isz \<and> ops = [] \<and>
            fst (malloc_result plat (allocs w) (to_size_t (wd * dp * isz)) (to_size_t ht))
              \<noteq> cudaSuccess \<longrightarrow>
            sp_get (ptr_dev g) = 0 \<and>
            (g_height g, g_width g, g_depth g, g_itemSize g) = (ht, wd, dp, isz))"
proof -
  from assms(4) obtain w1 g1 where c: "construct plat w pitch0 c = Some (w1, g1)"
    and r: "run plat w1 g1 ops = Some (w', g)"
    by (auto simp add: lifetime_def split: option.splits)
  from construct_shape_inv [OF assms(1) c assms(2)]
  have "shape_inv (length (cerr w)) w1 g1" .
  from run_shape_inv [OF assms(1) r assms(3) this]
  have 1: "(sp_get (ptr_dev g) = 0 \<and> shape_all_zero g) \<or>
          (sp_get (ptr_dev g) \<noteq> 0 \<and> shape_all_positive g) \<or>
          (sp_get (ptr_dev g) = 0 \<and> shape_all_positive g \<and>
           (\<exists>e. DeviceMemoryAllocation e \<in> set (drop (length (cerr w)) (cerr w'))))"
    by (auto simp add: shape_inv_def shape_state_ok_def)
  have "sp_get (ptr_dev g) = 0 \<and>
        (g_height g, g_width g, g_depth g, g_itemSize g) = (ht, wd, dp, isz)"
    if "c = ConstructShape ht wd dp isz" and "ops = []"
      and f: "fst (malloc_result plat (allocs w) (to_size_t (wd * dp * isz)) (to_size_t ht))
              \<noteq> cudaSuccess"
    for ht wd dp isz
  proof -
    from that c r have a: "allocate plat w \<lparr>g_width = wd, g_height = ht, g_depth = dp,
        g_pitch = pitch0, g_itemSize = isz, ptr_dev = sp_empty\<rparr> = Some (w', g)"
      by (simp add: construct_def GPUImage_shape_def)
    from allocate_result [OF a] row_bytes_Some(1) f show ?thesis by fastforce
  qed
  with 1 show ?thesis by blast
qed

lemmas eval_defs = lifetime_def construct_def GPUImage_shape_def allocate_def row_bytes_def
      int_mul_def INT_MIN_def INT_MAX_def cudaMallocPitch_def sim_def sp_make_def sp_release_def
      sp_empty_def world0_def world_host_def upload_def compareShape_def hostA_def cudaMemcpy2D_def
      device_region_def checkError_def gpu_deleter_def cudaFree_null Let_def

theorem shape_states_witness:
  "platform_contract (sim 0) \<and> platform_contract (sim 64) \<and>
   ctor_positive (ConstructShape 2 2 1 1) \<and> op_positive (Upload hostA) \<and>
   op_positive (Download hostB) \<and>
   (\<exists>w' g. lifetime (sim 0) world_host 0 (ConstructShape 2 2 1 1) [Upload hostA] = Some (w', g) \<and>
      sp_get (ptr_dev g) = 0 \<and> shape_all_positive g \<and>
      (\<exists>e. DeviceMemoryAllocation e \<in> set (drop (length (cerr world_host)) (cerr w')))) \<and>
   (\<exists>w' g. lifetime (sim 64) world_host 0 (ConstructShape 2 2 1 1) [Upload hostA, Download hostB] =
        Some (w', g) \<and>
      sp_get (ptr_dev g) \<noteq> 0 \<and> shape_all_positive g) \<and>
   (\<exists>w' g. lifetime (sim 0) world_host 0 (ConstructShape 2 2 1 1) [] = Some (w', g) \<and>
      fst (malloc_result (sim 0) (allocs world_host) (to_size_t (2 * 1 * 1)) (to_size_t 2)) \<noteq>
        cudaSuccess \<and>
      sp_get (ptr_dev g) = 0 \<and> (g_height g, g_width g, g_depth g, g_itemSize g) = (2, 2, 1, 1))"
proof -
  have cp: "ctor_positive (ConstructShape 2 2 1 1)"
    by (simp add: ctor_positive_def positive_shape_def INT_MAX_def)
  have up: "\<forall>x\<in>set [Upload hostA]. op_positive x"
    and ud: "\<forall>x\<in>set [Upload hostA, Download hostB]. op_positive x"
    and no: "\<forall>x\<in>set []. op_positive x"
    by (simp_all add: op_positive_def positive_shape_def hostA_def INT_MAX_def)
  obtain w1 g1 where
    l1: "lifetime (sim 0) world_host 0 (ConstructShape 2 2 1 1) [Upload hostA] = Some (w1, g1)"
    and p1: "sp_get (ptr_dev g1) = 0"
    by (simp add: eval_defs)
  from lifetime_bufA obtain w2 where
    l2: "lifetime (sim 64) world_host 0 (ConstructShape 2 2 1 1) [Upload hostA, Download hostB] =
        Some (w2, bufA)"
    by blast
  have p2: "sp_get (ptr_dev bufA) \<noteq> 0" by (simp add: bufA_def)
  obtain w3 g3 where
    l3: "lifetime (sim 0) world_host 0 (ConstructShape 2 2 1 1) [] = Some (w3, g3)"
    by (simp add: eval_defs)
  have f3: "fst (malloc_result (sim 0) (allocs world_host) (to_size_t (2 * 1 * 1)) (to_size_t 2)) \<noteq>
        cudaSuccess"
    by (simp add: sim_def)
  from shape_states [OF sim_contract cp up l1] p1
  have "shape_all_positive g1 \<and>
      (\<exists>e. DeviceMemoryAllocation e \<in> set (drop (length (cerr world_host)) (cerr w1)))"
    using l1 by (auto simp add: shape_all_zero_def eval_defs)
  moreover from shape_states [OF sim_contract cp ud l2] p2
  have "shape_all_positive bufA" by auto
  moreover from shape_states [OF sim_contract cp no l3] f3
  have "sp_get (ptr_dev g3) = 0 \<and> (g_height g3, g_width g3, g_depth g3, g_itemSize g3) = (2, 2, 1, 1)"
    by auto
  ultimately show ?thesis
    using sim_contract cp up ud l1 p1 l2 p2 l3 f3 by auto
qed

subsection \<open>The strided copy\<close>

lemma copy_row_apply:
  "copy_row dst d src s n a = (if d \<le> a \<and> a < d + n then src (s + (a - d)) else dst a)"
  by (induction n) auto

lemma copy2D_outside:
  assumes "\<forall>r<ht. \<not> (d + r * dp \<le> a \<and> a < d + r * dp + wd)"
  shows "copy2D dst d dp src s sp wd ht a = dst a"
  using assms by (induction ht) (auto simp add: copy_row_apply)

lemma row_before:
  assumes "r < k" and "c \<le> dp"
  shows "d + r * dp + c \<le> d + k * (dp::nat)"
proof -
  have "r * dp + c \<le> r * dp + dp" using assms(2) by simp
  also have "\<dots> = Suc r * dp" by simp
  also have "\<dots> \<le> k * dp" using assms(1) by (intro mult_le_mono1) simp
  finally show ?thesis by simp
qed

lemma copy2D_apply:
  assumes "wd \<le> dp" and "r < ht" and "c < dp"
  shows "copy2D dst d dp src s sp wd ht (d + r * dp + c) =
    (if c < wd then src (s + r * sp + c) else dst (d + r * dp + c))"
  using assms(2)
proof (induction ht)
  case 0
  then show ?case by simp
next
  case (Suc k)
  show ?case
  proof (cases "r = k")
    case True
    have "copy2D dst d dp src s sp wd k (d + k * dp + c) = dst (d + k * dp + c)"
    proof (rule copy2D_outside, intro allI impI)
      fix q assume "q < k"
      from row_before [OF this assms(1), of d]
      show "\<not> (d + q * dp \<le> d + k * dp + c \<and> d + k * dp + c < d + q * dp + wd)" by simp
    qed
    then show ?thesis using True by (auto simp add: copy_row_apply)
  next
    case False
    with Suc.prems have "r < k" by simp
    from row_before [OF this, of "Suc c" dp d] assms(3)
    have "d + r * dp + c < d + k * dp" by simp
    then show ?thesis using Suc.IH [OF \<open>r < k\<close>] by (simp add: copy_row_apply)
  qed
qed

lemma device_region_calls [simp]:
  "device_region (w\<lparr>calls := cs\<rparr>) p pt wd ht = device_region w p pt wd ht"
  "device_region (w\<lparr>dmem := m\<rparr>) p pt wd ht = device_region w p pt wd ht"
  by (simp_all add: device_region_def)

lemma buffer_ok_row_bytes:
  assumes "buffer_ok w g"
  shows "row_bytes g = Some (g_width g * g_depth g * g_itemSize g)"
proof -
  from assms have p: "0 < g_width g" "0 < g_depth g" "0 < g_itemSize g"
    and le: "g_width g * g_depth g * g_itemSize g \<le> INT_MAX"
    by (simp_all add: buffer_ok_def shape_all_positive_def)
  have "g_width g * g_depth g * 1 \<le> g_width g * g_depth g * g_itemSize g"
    using p by (intro mult_left_mono) simp_all
  with le have "g_width g * g_depth g \<le> INT_MAX" by simp
  moreover have "0 < g_width g * g_depth g" using p by simp
  moreover have "0 < g_width g * g_depth g * g_itemSize g" using p by simp
  ultimately show ?thesis using le
    by (simp add: row_bytes_def int_mul_def INT_MIN_def)
qed

lemma upload_copies:
  assumes "buffer_ok w g" and "compareShape g H"
    and "g_width g * g_depth g * g_itemSize g \<le> pitch H" and "pitch H \<le> INT_MAX"
  defines "rb \<equiv> nat (g_width g * g_depth g * g_itemSize g)"
  shows "upload plat w g H =
    Some (w\<lparr>calls := calls w @
               [Memcpy2D (sp_get (ptr_dev g)) (g_pitch g) (data H) (nat (pitch H)) rb
                  (nat (g_height g)) cudaMemcpyHostToDevice],
             dmem := copy2D (dmem w) (sp_get (ptr_dev g)) (g_pitch g) (hmem w) (data H)
                       (nat (pitch H)) rb (nat (g_height g))\<rparr>, g)"
proof -
  from assms(1) have pos: "0 < g_width g * g_depth g * g_itemSize g" "0 < g_height g"
    by (simp_all add: buffer_ok_def shape_all_positive_def)
  have 1: "to_size_t (g_width g * g_depth g * g_itemSize g) = rb"
    using assms(1) pos by (simp add: rb_def to_size_t_nat buffer_ok_def)
  have 2: "to_size_t (g_height g) = nat (g_height g)"
    using assms(1) pos by (simp add: to_size_t_nat buffer_ok_def)
  have 3: "to_size_t (pitch H) = nat (pitch H)"
    using assms(3,4) pos by (simp add: to_size_t_nat)
  have 4: "rb \<le> g_pitch g" "rb \<le> nat (pitch H)"
    using assms(1,3) by (simp_all add: rb_def buffer_ok_def nat_le_iff)
  have 5: "device_region w (sp_get (ptr_dev g)) (g_pitch g) rb (nat (g_height g))"
    using assms(1) by (simp add: buffer_ok_def rb_def)
  have 6: "row_bytes g = Some (g_width g * g_depth g * g_itemSize g)"
    using assms(1) by (rule buffer_ok_row_bytes)
  have 7: "sp_get (ptr_dev g) \<noteq> 0" using assms(1) by (simp add: buffer_ok_def)
  show ?thesis
    using assms(2) 4 5 7
    by (simp add: upload_def 1 2 3 6 cudaMemcpy2D_def checkError_def Let_def
        not_less [symmetric] del: not_less)
qed

lemma download_copies:
  assumes "buffer_ok w g" and "compareShape g H"
    and "g_width g * g_depth g * g_itemSize g \<le> pitch H" and "pitch H \<le> INT_MAX"
  defines "rb \<equiv> nat (g_width g * g_depth g * g_itemSize g)"
  shows "download w g H =
    Some (w\<lparr>calls := calls w @
               [Memcpy2D (data H) (nat (pitch H)) (sp_get (ptr_dev g)) (g_pitch g) rb
                  (nat (g_height g)) cudaMemcpyDeviceToHost],
             hmem := copy2D (hmem w) (data H) (nat (pitch H)) (dmem w) (sp_get (ptr_dev g))
                       (g_pitch g) rb (nat (g_height g))\<rparr>)"
proof -
  from assms(1) have pos: "0 < g_width g * g_depth g * g_itemSize g" "0 < g_height g"
    by (simp_all add: buffer_ok_def shape_all_positive_def)
  have 1: "to_size_t (g_width g * g_depth g * g_itemSize g) = rb"
    using assms(1) pos by (simp add: rb_def to_size_t_nat buffer_ok_def)
  have 2: "to_size_t (g_height g) = nat (g_height g)"
    using assms(1) pos by (simp add: to_size_t_nat buffer_ok_def)
  have 3: "to_size_t (pitch H) = nat (pitch H)"
    using assms(3,4) pos by (simp add: to_size_t_nat)
  have 4: "rb \<le> g_pitch g" "rb \<le> nat (pitch H)"
    using assms(1,3) by (simp_all add: rb_def buffer_ok_def nat_le_iff)
  have 5: "device_region w (sp_get (ptr_dev g)) (g_pitch g) rb (nat (g_height g))"
    using assms(1) by (simp add: buffer_ok_def rb_def)
  have 6: "row_bytes g = Some (g_width g * g_depth g * g_itemSize g)"
    using assms(1) by (rule buffer_ok_row_bytes)
  have 7: "sp_get (ptr_dev g) \<noteq> 0" using assms(1) by (simp add: buffer_ok_def)
  show ?thesis
    using assms(2) 4 5 7
    by (simp add: download_def 1 2 3 6 cudaMemcpy2D_def checkError_def Let_def
        not_less [symmetric] del: not_less)
qed


subsection \<open>Transfers\<close>

lemma sp_release_null:
  assumes "sp_get sp = 0"
  shows "allocs (sp_release w sp) = allocs w" and "cerr (sp_release w sp) = cerr w"
    and "dmem (sp_release w sp) = dmem w" and "hmem (sp_release w sp) = hmem w"
    and "textures (sp_release w sp) = textures w"
  using assms
  by (simp_all add: sp_release_def gpu_deleter_def cudaFree_null split: option.splits)

lemma allocate_fresh:
  assumes "sp_get (ptr_dev g) = 0"
    and "row_bytes g = Some rb"
    and "malloc_result plat (allocs w) (to_size_t rb) (to_size_t (g_height g)) = (cudaSuccess, p, pt)"
  shows "\<exists>w'. allocate plat w g =
      Some (w', g\<lparr>g_pitch := pt, ptr_dev := \<lparr>sp_get = p, sp_cb = Some (next_cb w)\<rparr>\<rparr>) \<and>
    allocs w' = (p, pt * to_size_t (g_height g)) # allocs w \<and> cerr w' = cerr w \<and>
    dmem w' = dmem w \<and> hmem w' = hmem w \<and>
    (\<exists>cs. calls w' = calls w @ MallocPitch (to_size_t rb) (to_size_t (g_height g)) # cs)"
  using assms
  by (auto simp add: allocate_def cudaMallocPitch_def sp_make_def sp_release_def gpu_deleter_def
      cudaFree_null Let_def split: option.splits)

lemma upload_after_allocate:
  assumes "sp_get (ptr_dev g) = 0"
    and "allocate plat w
               (g\<lparr>g_width := width img, g_height := height img, g_depth := depth img,
                  g_itemSize := itemSize img\<rparr>) = Some (wa, ga)"
    and "sp_get (ptr_dev ga) \<noteq> 0"
  shows "upload plat w g img = upload plat wa ga img"
  using assms by (simp add: upload_def)

text \<open>
  C3. A host image \<open>H\<close> with a pitch of at least its row size is uploaded into an allocated
  buffer of matching shape and downloaded into a zeroed host image \<open>H'\<close> of the same shape
  and any pitch of at least the row size. Both transfers succeed without a diagnostic, and
  afterwards every row of \<open>H'\<close> holds the row of \<open>H\<close> (as it was before the upload) in its
  first \<open>width * depth * itemSize\<close> bytes and zeros in its padding: each copy moved exactly
  the row size per row and followed the pitches of its two sides.
\<close>

theorem upload_download_roundtrip:
  assumes "buffer_ok w g"
    and "compareShape g H" and "compareShape g H'"
    and "width H * depth H * itemSize H \<le> pitch H" and "pitch H \<le> INT_MAX"
    and "width H' * depth H' * itemSize H' \<le> pitch H'" and "pitch H' \<le> INT_MAX"
    and "\<forall>r<nat (height H'). \<forall>c<nat (pitch H').
           hmem w (data H' + r * nat (pitch H') + c) = 0"
  shows "\<exists>w1 w2. upload plat w g H = Some (w1, g) \<and> download w1 g H' = Some w2 \<and>
     cerr w2 = cerr w \<and>
     (\<forall>r<nat (height H). \<forall>c<nat (pitch H').
        hmem w2 (data H' + r * nat (pitch H') + c) =
          (if c < nat (width H * depth H * itemSize H)
           then hmem w (data H + r * nat (pitch H) + c) else 0))"
proof -
  define rb where "rb = nat (g_width g * g_depth g * g_itemSize g)"
  define ht where "ht = nat (g_height g)"
  define p where "p = sp_get (ptr_dev g)"
  define w1 where "w1 = w\<lparr>calls := calls w @
               [Memcpy2D p (g_pitch g) (data H) (nat (pitch H)) rb ht cudaMemcpyHostToDevice],
             dmem := copy2D (dmem w) p (g_pitch g) (hmem w) (data H) (nat (pitch H)) rb ht\<rparr>"
  define w2 where "w2 = w1\<lparr>calls := calls w1 @
               [Memcpy2D (data H') (nat (pitch H')) p (g_pitch g) rb ht cudaMemcpyDeviceToHost],
             hmem := copy2D (hmem w1) (data H') (nat (pitch H')) (dmem w1) p (g_pitch g) rb ht\<rparr>"
  have sH: "width H * depth H * itemSize H = g_width g * g_depth g * g_itemSize g"
    "height H = g_height g"
    and sH': "width H' * depth H' * itemSize H' = g_width g * g_depth g * g_itemSize g"
    "height H' = g_height g"
    using assms(2,3) by (simp_all add: compareShape_def)
  have up: "upload plat w g H = Some (w1, g)"
    using upload_copies [OF assms(1,2) _ assms(5)] assms(4) sH
    by (simp add: w1_def rb_def ht_def p_def)
  have "buffer_ok w1 g" using assms(1) by (simp add: buffer_ok_def w1_def)
  from download_copies [OF this assms(3) _ assms(7)] assms(6) sH'
  have down: "download w1 g H' = Some w2"
    by (simp add: w2_def rb_def ht_def p_def)
  have le: "rb \<le> g_pitch g" "rb \<le> nat (pitch H')"
    using assms(1,6) sH' by (simp_all add: rb_def buffer_ok_def nat_le_iff)
  have "hmem w2 (data H' + r * nat (pitch H') + c) =
          (if c < rb then hmem w (data H + r * nat (pitch H) + c) else 0)"
    if r: "r < ht" and c: "c < nat (pitch H')" for r c
  proof -
    have "hmem w2 (data H' + r * nat (pitch H') + c) =
        (if c < rb then dmem w1 (p + r * g_pitch g + c)
         else hmem w1 (data H' + r * nat (pitch H') + c))"
      using copy2D_apply [OF le(2) r c] by (simp add: w2_def)
    moreover have "dmem w1 (p + r * g_pitch g + c) = hmem w (data H + r * nat (pitch H) + c)"
      if "c < rb"
      using copy2D_apply [OF le(1) r, of c] that le(1) by (simp add: w1_def)
    moreover have "hmem w1 (data H' + r * nat (pitch H') + c) = 0"
      using assms(8) r c sH' by (simp add: w1_def ht_def)
    ultimately show ?thesis by simp
  qed
  then have "\<forall>r<nat (height H). \<forall>c<nat (pitch H').
        hmem w2 (data H' + r * nat (pitch H') + c) =
          (if c < nat (width H * depth H * itemSize H)
           then hmem w (data H + r * nat (pitch H) + c) else 0)"
    using sH by (simp add: rb_def ht_def)
  moreover have "cerr w2 = cerr w" by (simp add: w2_def w1_def)
  ultimately show ?thesis using up down by blast
qed


theorem upload_download_roundtrip_witness:
  "buffer_ok worldA bufA \<and> compareShape bufA hostA \<and> compareShape bufA hostB \<and>
   width hostA * depth hostA * itemSize hostA \<le> pitch hostA \<and> pitch hostA \<le> INT_MAX \<and>
   width hostB * depth hostB * itemSize hostB \<le> pitch hostB \<and> pitch hostB \<le> INT_MAX \<and>
   map (hmem worldA) [200, 201, 202, 203, 204, 205, 206, 207] = [0, 0, 0, 0, 0, 0, 0, 0] \<and>
   map (hmem worldA) [100, 101, 102, 103] = [1, 2, 3, 4] \<and>
   (\<exists>w1 w2. upload (sim 64) worldA bufA hostA = Some (w1, bufA) \<and>
      download w1 bufA hostB = Some w2 \<and> cerr w2 = cerr worldA \<and>
      map (hmem w2) [200, 201, 202, 203, 204, 205, 206, 207] = [1, 2, 0, 0, 3, 4, 0, 0])"
proof -
  have ok: "buffer_ok worldA bufA"
    by (simp add: buffer_ok_def bufA_def worldA_def world_host_def world0_def device_region_def
        shape_all_positive_def INT_MAX_def)
  have cA: "compareShape bufA hostA" and cB: "compareShape bufA hostB"
    by (simp_all add: compareShape_def bufA_def hostA_def hostB_def)
  have pA: "width hostA * depth hostA * itemSize hostA \<le> pitch hostA" "pitch hostA \<le> INT_MAX"
    and pB: "width hostB * depth hostB * itemSize hostB \<le> pitch hostB" "pitch hostB \<le> INT_MAX"
    by (simp_all add: hostA_def hostB_def INT_MAX_def)
  have z: "\<forall>r<nat (height hostB). \<forall>c<nat (pitch hostB).
           hmem worldA (data hostB + r * nat (pitch hostB) + c) = 0"
    by (simp add: hostB_def worldA_def world_host_def world0_def)
  from upload_download_roundtrip [OF ok cA cB pA pB z, of "sim 64"]
  obtain w1 w2 where u: "upload (sim 64) worldA bufA hostA = Some (w1, bufA)"
    and d: "download w1 bufA hostB = Some w2" and e: "cerr w2 = cerr worldA"
    and v: "\<forall>r<nat (height hostA). \<forall>c<nat (pitch hostB).
        hmem w2 (data hostB + r * nat (pitch hostB) + c) =
          (if c < nat (width hostA * depth hostA * itemSize hostA)
           then hmem worldA (data hostA + r * nat (pitch hostA) + c) else 0)"
    by blast
  have v': "hmem w2 (200 + r * 4 + c) = (if c < 2 then hmem worldA (100 + r * 2 + c) else 0)"
    if "r < 2" "c < 4" for r c
    using v that by (simp add: hostA_def hostB_def)
  have "map (hmem w2) [200, 201, 202, 203, 204, 205, 206, 207] = [1, 2, 0, 0, 3, 4, 0, 0]"
    using v' [of 0 0] v' [of 0 1] v' [of 0 2] v' [of 0 3]
      v' [of 1 0] v' [of 1 1] v' [of 1 2] v' [of 1 3]
    by (simp add: worldA_def world_host_def world0_def)
  moreover have "map (hmem worldA) [200, 201, 202, 203, 204, 205, 206, 207] =
      [0, 0, 0, 0, 0, 0, 0, 0]"
    "map (hmem worldA) [100, 101, 102, 103] = [1, 2, 3, 4]"
    by (simp_all add: worldA_def world_host_def world0_def)
  ultimately show ?thesis using ok cA cB pA pB u d e by auto
qed

lemma row_bytes_positive:
  assumes "0 < g_width g" and "0 < g_depth g" and "0 < g_itemSize g"
    and le: "g_width g * g_depth g * g_itemSize g \<le> INT_MAX"
  shows "row_bytes g = Some (g_width g * g_depth g * g_itemSize g)"
proof -
  have "g_width g * g_depth g * 1 \<le> g_width g * g_depth g * g_itemSize g"
    using assms(1-3) by (intro mult_left_mono) simp_all
  with le have "g_width g * g_depth g \<le> INT_MAX" by simp
  moreover have "0 < g_width g * g_depth g" using assms(1,2) by simp
  moreover have "0 < g_width g * g_depth g * g_itemSize g" using assms(1-3) by simp
  ultimately show ?thesis using le
    by (simp add: row_bytes_def int_mul_def INT_MIN_def)
qed

lemma upload_mismatch:
  assumes "sp_get (ptr_dev g) \<noteq> 0"
    and "(g_height g, g_width g, g_depth g, g_itemSize g) \<noteq>
         (height img, width img, depth img, itemSize img)"
  shows "upload plat w g img = Some (w\<lparr>cerr := cerr w @ [UploadShapesDoNotMatch]\<rparr>, g)"
  using assms by (auto simp add: upload_def compareShape_def)

lemma last_row_fits:
  assumes "wd \<le> pt" and "0 < (n::nat)"
  shows "(n - 1) * pt + wd \<le> pt * n"
proof -
  from assms(2) obtain m where "n = Suc m" by (cases n) auto
  with assms(1) show ?thesis by simp
qed

lemma allocate_calls:
  assumes "allocate plat w g = Some (w', g')"
  shows "\<exists>rb cs. row_bytes g = Some rb \<and>
     calls w' = calls w @ MallocPitch (to_size_t rb) (to_size_t (g_height g)) # cs"
  using assms
  by (auto simp add: allocate_def cudaMallocPitch_def sp_make_def sp_release_def gpu_deleter_def
      cudaFree_def Let_def split: Option.bind_splits prod.splits if_splits option.splits)

lemma upload_calls:
  assumes "upload plat w g img = Some (w', g')"
  shows "\<exists>w1 cs. calls w' = calls w1 @ cs \<and>
     (if sp_get (ptr_dev g) = 0
      then allocate plat w
               (g\<lparr>g_width := width img, g_height := height img, g_depth := depth img,
                  g_itemSize := itemSize img\<rparr>) = Some (w1, g')
      else w1 = w \<and> g' = g)"
  using assms
  by (auto simp add: upload_def checkError_def cudaMemcpy2D_def Let_def
      split: Option.bind_splits if_splits)

lemma first_upload_adopts:
  assumes "sp_get (ptr_dev g) = 0" and "upload plat w g img = Some (w1, g1)"
  shows "(g_height g1, g_width g1, g_depth g1, g_itemSize g1) =
           (height img, width img, depth img, itemSize img) \<and>
         (\<exists>cs. calls w1 = calls w @
            MallocPitch (to_size_t (width img * depth img * itemSize img))
              (to_size_t (height img)) # cs)"
proof -
  define g0 where "g0 = g\<lparr>g_width := width img, g_height := height img, g_depth := depth img,
                  g_itemSize := itemSize img\<rparr>"
  from upload_calls [OF assms(2)] assms(1) obtain wa cs where c: "calls w1 = calls wa @ cs"
    and a: "allocate plat w g0 = Some (wa, g1)"
    by (auto simp add: g0_def)
  from allocate_calls [OF a] obtain rb cs' where rb: "row_bytes g0 = Some rb"
    and c': "calls wa = calls w @ MallocPitch (to_size_t rb) (to_size_t (g_height g0)) # cs'"
    by blast
  from row_bytes_Some(1) [OF rb] have "rb = width img * depth img * itemSize img"
    by (simp add: g0_def)
  moreover from allocate_result [OF a]
  have "(g_height g1, g_width g1, g_depth g1, g_itemSize g1) =
           (height img, width img, depth img, itemSize img)"
    by (auto simp add: g0_def)
  ultimately show ?thesis using c c' by (simp add: g0_def)
qed

lemma first_upload_granted:
  assumes "sp_get (ptr_dev g) = 0"
    and "platform_contract plat"
    and "positive_shape (height img) (width img) (depth img) (itemSize img)"
    and "width img * depth img * itemSize img \<le> pitch img" and "pitch img \<le> INT_MAX"
    and "malloc_result plat (allocs w) (nat (width img * depth img * itemSize img))
           (nat (height img)) = (cudaSuccess, p, pt)"
    and "(height img2, width img2, depth img2, itemSize img2) \<noteq>
         (height img, width img, depth img, itemSize img)"
  shows "\<exists>w1 g1. upload plat w g img = Some (w1, g1) \<and>
     (g_height g1, g_width g1, g_depth g1, g_itemSize g1) =
       (height img, width img, depth img, itemSize img) \<and>
     sp_get (ptr_dev g1) = p \<and> p \<noteq> 0 \<and> g_pitch g1 = pt \<and>
     allocs w1 = (p, pt * nat (height img)) # allocs w \<and>
     (\<exists>cs. calls w1 = calls w @
        MallocPitch (nat (width img * depth img * itemSize img)) (nat (height img)) # cs) \<and>
     cerr w1 = cerr w \<and>
     (\<forall>r<nat (height img). \<forall>c<nat (width img * depth img * itemSize img).
        dmem w1 (p + r * pt + c) = hmem w (data img + r * nat (pitch img) + c)) \<and>
     upload plat w1 g1 img2 = Some (w1\<lparr>cerr := cerr w1 @ [UploadShapesDoNotMatch]\<rparr>, g1)"
proof -
  define rb where "rb = width img * depth img * itemSize img"
  define g0 where "g0 = g\<lparr>g_width := width img, g_height := height img, g_depth := depth img,
                  g_itemSize := itemSize img\<rparr>"
  define ga where "ga = g0\<lparr>g_pitch := pt, ptr_dev := \<lparr>sp_get = p, sp_cb = Some (next_cb w)\<rparr>\<rparr>"
  from assms(3) have pos: "0 < height img" "height img \<le> INT_MAX" "0 < width img"
    "0 < depth img" "0 < itemSize img"
    by (simp_all add: positive_shape_def)
  have rb_max: "rb \<le> INT_MAX" using assms(4,5) by (simp add: rb_def)
  have rb_pos: "0 < rb" using pos by (simp add: rb_def)
  have rbs: "row_bytes g0 = Some rb"
    using row_bytes_positive [of g0] pos rb_max by (simp add: g0_def rb_def)
  have sz: "to_size_t rb = nat rb" "to_size_t (g_height g0) = nat (height img)"
    using rb_pos rb_max pos by (simp_all add: to_size_t_nat g0_def)
  have "sp_get (ptr_dev g0) = 0" using assms(1) by (simp add: g0_def)
  from allocate_fresh [OF this rbs, of plat w p pt] assms(6) sz
  obtain wa cs where a: "allocate plat w g0 = Some (wa, ga)"
    and al: "allocs wa = (p, pt * nat (height img)) # allocs w"
    and ce: "cerr wa = cerr w" and me: "dmem wa = dmem w" "hmem wa = hmem w"
    and ca: "calls wa = calls w @ MallocPitch (nat rb) (nat (height img)) # cs"
    by (auto simp add: ga_def rb_def)
  from assms(2,6) rb_pos pos have ct: "nat rb \<le> pt" "p \<noteq> 0"
    by (auto simp add: platform_contract_def rb_def)
  have "(nat (height img) - 1) * pt + nat rb \<le> pt * nat (height img)"
    using ct(1) pos(1) by (intro last_row_fits) simp_all
  then have ok: "buffer_ok wa ga"
    using ct pos rb_max al
    by (simp add: buffer_ok_def ga_def g0_def shape_all_positive_def rb_def device_region_def
        nat_le_iff)
  have cs: "compareShape ga img" by (simp add: compareShape_def ga_def g0_def)
  have eq: "upload plat w g img = upload plat wa ga img"
    using assms(1) a ct(2) by (intro upload_after_allocate) (simp_all add: g0_def ga_def)
  from upload_copies [OF ok cs _ assms(5), of plat] assms(4)
  obtain w1 where ua: "upload plat wa ga img = Some (w1, ga)"
    and w1: "w1 = wa\<lparr>calls := calls wa @
               [Memcpy2D p pt (data img) (nat (pitch img)) (nat rb)
                  (nat (height img)) cudaMemcpyHostToDevice],
             dmem := copy2D (dmem wa) p pt (hmem wa) (data img)
                       (nat (pitch img)) (nat rb) (nat (height img))\<rparr>"
    by (simp add: ga_def g0_def rb_def)
  from eq ua have u: "upload plat w g img = Some (w1, ga)" by simp
  have "dmem w1 (p + r * pt + c) = hmem w (data img + r * nat (pitch img) + c)"
    if "r < nat (height img)" "c < nat rb" for r c
    using copy2D_apply [OF ct(1) that(1), of c] that(2) ct(1) me by (simp add: w1)
  moreover have "upload plat w1 ga img2 =
      Some (w1\<lparr>cerr := cerr w1 @ [UploadShapesDoNotMatch]\<rparr>, ga)"
    using ct(2) assms(7) by (intro upload_mismatch) (auto simp add: ga_def g0_def)
  ultimately show ?thesis
    using u ct(2) al ce ca by (auto simp add: w1 ga_def g0_def rb_def)
qed

text \<open>
  C2, as stated, fails: on a device without free memory the first upload of the 2 x 2 x 1
  x 1 image to an empty buffer reports the allocation failure and the failed copy and
  leaves the device pointer null; the following upload of an image of depth 3 then writes
  no shape-mismatch diagnostic: it adopts the depth 3, calls \<open>cudaMallocPitch\<close> a second
  time and attempts its copy.
\<close>

theorem upload_without_memory_allocates_again:
  "map_option (sp_get \<circ> ptr_dev \<circ> snd)
     (lifetime (sim 0) world_host 0 Construct [Upload hostA]) = Some 0 \<and>
   map_option (cerr \<circ> fst) (lifetime (sim 0) world_host 0 Construct [Upload hostA]) =
     Some [DeviceMemoryAllocation cudaErrorMemoryAllocation,
           CheckError cudaErrorInvalidPitchValue] \<and>
   map_option (g_depth \<circ> snd)
     (lifetime (sim 0) world_host 0 Construct [Upload hostA, Upload hostC]) = Some 3 \<and>
   map_option (calls \<circ> fst)
     (lifetime (sim 0) world_host 0 Construct [Upload hostA, Upload hostC]) =
     Some [MallocPitch 2 2, Free 0, Memcpy2D 0 0 100 2 2 2 cudaMemcpyHostToDevice,
           MallocPitch 6 2, Free 0, Memcpy2D 0 0 300 6 6 2 cudaMemcpyHostToDevice] \<and>
   map_option (cerr \<circ> fst)
     (lifetime (sim 0) world_host 0 Construct [Upload hostA, Upload hostC]) =
     Some [DeviceMemoryAllocation cudaErrorMemoryAllocation,
           CheckError cudaErrorInvalidPitchValue,
           DeviceMemoryAllocation cudaErrorMemoryAllocation,
           CheckError cudaErrorInvalidPitchValue]"
  by (simp add: eval_defs GPUImage_default_def hostC_def)

text \<open>
  C2, amended. An upload to an unallocated buffer, for every host image for which it is
  defined (no signed overflow in the row size): the buffer has the shape of the host image
  and the allocation of its rows has been requested; and if the buffer holds an allocation
  afterwards, an upload of an image of another shape writes the shape-mismatch diagnostic
  and changes nothing else: no copy, no allocation, the buffer as it was. When the host
  image is well formed (positive shape, pitch of at least its row size) and the platform
  grants the allocation, the upload returns, the buffer holds the new allocation, no
  diagnostic is written and the device memory holds the rows of the image.
\<close>

theorem first_upload_allocates:
  assumes "sp_get (ptr_dev g) = 0"
    and "(height img2, width img2, depth img2, itemSize img2) \<noteq>
         (height img, width img, depth img, itemSize img)"
  shows "(\<forall>w1 g1. upload plat w g img = Some (w1, g1) \<longrightarrow>
            (g_height g1, g_width g1, g_depth g1, g_itemSize g1) =
              (height img, width img, depth img, itemSize img) \<and>
            (\<exists>cs. calls w1 = calls w @
               MallocPitch (to_size_t (width img * depth img * itemSize img))
                 (to_size_t (height img)) # cs) \<and>
            (sp_get (ptr_dev g1) \<noteq> 0 \<longrightarrow>
               upload plat w1 g1 img2 =
                 Some (w1\<lparr>cerr := cerr w1 @ [UploadShapesDoNotMatch]\<rparr>, g1))) \<and>
         (platform_contract plat \<and>
          positive_shape (height img) (width img) (depth img) (itemSize img) \<and>
          width img * depth img * itemSize img \<le> pitch img \<and> pitch img \<le> INT_MAX \<and>
          malloc_result plat (allocs w) (nat (width img * depth img * itemSize img))
            (nat (height img)) = (cudaSuccess, p, pt) \<longrightarrow>
          (\<exists>w1 g1. upload plat w g img = Some (w1, g1) \<and>
             sp_get (ptr_dev g1) = p \<and> p \<noteq> 0 \<and> g_pitch g1 = pt \<and>
             allocs w1 = (p, pt * nat (height img)) # allocs w \<and>
             cerr w1 = cerr w \<and>
             (\<forall>r<nat (height img). \<forall>c<nat (width img * depth img * itemSize img).
                dmem w1 (p + r * pt + c) = hmem w (data img + r * nat (pitch img) + c))))"
proof -
  have "(g_height g1, g_width g1, g_depth g1, g_itemSize g1) =
              (height img, width img, depth img, itemSize img) \<and>
            (\<exists>cs. calls w1 = calls w @
               MallocPitch (to_size_t (width img * depth img * itemSize img))
                 (to_size_t (height img)) # cs) \<and>
            (sp_get (ptr_dev g1) \<noteq> 0 \<longrightarrow>
               upload plat w1 g1 img2 =
                 Some (w1\<lparr>cerr := cerr w1 @ [UploadShapesDoNotMatch]\<rparr>, g1))"
    if u: "upload plat w g img = Some (w1, g1)" for w1 g1
  proof -
    note a = first_upload_adopts [OF assms(1) u]
    have "upload plat w1 g1 img2 = Some (w1\<lparr>cerr := cerr w1 @ [UploadShapesDoNotMatch]\<rparr>, g1)"
      if "sp_get (ptr_dev g1) \<noteq> 0"
      using that a assms(2) by (intro upload_mismatch) auto
    with a show ?thesis by blast
  qed
  moreover have "\<exists>w1 g1. upload plat w g img = Some (w1, g1) \<and>
             sp_get (ptr_dev g1) = p \<and> p \<noteq> 0 \<and> g_pitch g1 = pt \<and>
             allocs w1 = (p, pt * nat (height img)) # allocs w \<and>
             cerr w1 = cerr w \<and>
             (\<forall>r<nat (height img). \<forall>c<nat (width img * depth img * itemSize img).
                dmem w1 (p + r * pt + c) = hmem w (data img + r * nat (pitch img) + c))"
    if "platform_contract plat"
      and "positive_shape (height img) (width img) (depth img) (itemSize img)"
      and "width img * depth img * itemSize img \<le> pitch img" and "pitch img \<le> INT_MAX"
      and "malloc_result plat (allocs w) (nat (width img * depth img * itemSize img))
            (nat (height img)) = (cudaSuccess, p, pt)"
    using first_upload_granted [OF assms(1) that assms(2)] by blast
  ultimately show ?thesis by blast
qed

theorem first_upload_allocates_witness:
  "sp_get (ptr_dev (snd (GPUImage_default world_host))) = 0 \<and>
   platform_contract (sim 64) \<and>
   positive_shape (height hostA) (width hostA) (depth hostA) (itemSize hostA) \<and>
   width hostA * depth hostA * itemSize hostA \<le> pitch hostA \<and> pitch hostA \<le> INT_MAX \<and>
   malloc_result (sim 64) (allocs (fst (GPUImage_default world_host)))
     (nat (width hostA * depth hostA * itemSize hostA)) (nat (height hostA)) =
     (cudaSuccess, 8, 8) \<and>
   (height hostC, width hostC, depth hostC, itemSize hostC) \<noteq>
     (height hostA, width hostA, depth hostA, itemSize hostA) \<and>
   (\<exists>w1 g1 cs. upload (sim 64) (fst (GPUImage_default world_host))
        (snd (GPUImage_default world_host)) hostA = Some (w1, g1) \<and>
      (g_height g1, g_width g1, g_depth g1, g_itemSize g1) = (2, 2, 1, 1) \<and>
      calls w1 = MallocPitch 2 2 # cs \<and>
      sp_get (ptr_dev g1) = 8 \<and> sp_get (ptr_dev g1) \<noteq> 0 \<and> g_pitch g1 = 8 \<and>
      allocs w1 = [(8, 16)] \<and> cerr w1 = [] \<and>
      map (dmem w1) [8, 9, 16, 17] = [1, 2, 3, 4] \<and>
      upload (sim 64) w1 g1 hostC = Some (w1\<lparr>cerr := [UploadShapesDoNotMatch]\<rparr>, g1))"
proof -
  define w0 where "w0 = fst (GPUImage_default world_host)"
  define g0 where "g0 = snd (GPUImage_default world_host)"
  have 1: "sp_get (ptr_dev g0) = 0"
    by (simp add: g0_def GPUImage_default_def sp_make_def)
  have 3: "positive_shape (height hostA) (width hostA) (depth hostA) (itemSize hostA)"
    and 4: "width hostA * depth hostA * itemSize hostA \<le> pitch hostA" "pitch hostA \<le> INT_MAX"
    and 7: "(height hostC, width hostC, depth hostC, itemSize hostC) \<noteq>
     (height hostA, width hostA, depth hostA, itemSize hostA)"
    by (simp_all add: positive_shape_def hostA_def hostC_def INT_MAX_def)
  have w0: "allocs w0 = []" "cerr w0 = []" "hmem w0 = hmem world_host" "calls w0 = []"
    by (simp_all add: w0_def GPUImage_default_def sp_make_def sp_release_def sp_empty_def
        world_host_def world0_def)
  have 6: "malloc_result (sim 64) (allocs w0)
     (nat (width hostA * depth hostA * itemSize hostA)) (nat (height hostA)) =
     (cudaSuccess, 8, 8)"
    by (simp add: w0 sim_def hostA_def)
  note T = first_upload_allocates [OF 1 7, of "sim 64" w0 8 8]
  from T [THEN conjunct2] sim_contract 3 4 6
  obtain w1 g1 where u: "upload (sim 64) w0 g0 hostA = Some (w1, g1)"
    and p: "sp_get (ptr_dev g1) = 8" "g_pitch g1 = 8"
    and a: "allocs w1 = (8, 8 * nat (height hostA)) # allocs w0" and c: "cerr w1 = cerr w0"
    and v: "\<forall>r<nat (height hostA). \<forall>c<nat (width hostA * depth hostA * itemSize hostA).
        dmem w1 (8 + r * 8 + c) = hmem w0 (data hostA + r * nat (pitch hostA) + c)"
    by blast
  from T [THEN conjunct1, rule_format, OF u] p(1)
  obtain cs where s: "(g_height g1, g_width g1, g_depth g1, g_itemSize g1) =
       (height hostA, width hostA, depth hostA, itemSize hostA)"
    and k: "calls w1 = calls w0 @ MallocPitch (to_size_t (width hostA * depth hostA * itemSize hostA))
                 (to_size_t (height hostA)) # cs"
    and m: "upload (sim 64) w1 g1 hostC = Some (w1\<lparr>cerr := cerr w1 @ [UploadShapesDoNotMatch]\<rparr>, g1)"
    by auto
  have v': "dmem w1 (8 + r * 8 + c) = hmem world_host (100 + r * 2 + c)" if "r < 2" "c < 2" for r c
    using v that by (simp add: hostA_def w0)
  have "map (dmem w1) [8, 9, 16, 17] = [1, 2, 3, 4]"
    using v' [of 0 0] v' [of 0 1] v' [of 1 0] v' [of 1 1]
    by (simp add: world_host_def world0_def)
  then show ?thesis
    using 1 sim_contract 3 4 6 7 u s p a c m k
    by (simp add: w0_def [symmetric] g0_def [symmetric] w0 hostA_def)
qed

subsection \<open>Shared ownership of the device allocation\<close>

lemma destroy_last:
  assumes "sp_cb (ptr_dev g) = Some c" and "use_count w c = 1"
  shows "GPUImage_destroy w g =
    snd (cudaFree (w\<lparr>use_count := (use_count w)(c := 0)\<rparr>) (sp_get (ptr_dev g)))"
  using assms by (simp add: GPUImage_destroy_def sp_release_def gpu_deleter_def)

lemma filter_absent:
  "p \<notin> fst ` set xs \<Longrightarrow> filter (\<lambda>x. fst x \<noteq> p) xs = xs"
  by (induction xs) auto

lemma cudaFree_fields:
  "calls (snd (cudaFree w p)) = calls w @ [Free p]"
  "p \<noteq> 0 \<Longrightarrow> allocs (snd (cudaFree w p)) = filter (\<lambda>x. fst x \<noteq> p) (allocs w)"
  "dmem (snd (cudaFree w p)) = dmem w" "use_count (snd (cudaFree w p)) = use_count w"
  "hmem (snd (cudaFree w p)) = hmem w" "cerr (snd (cudaFree w p)) = cerr w"
  by (simp_all add: cudaFree_def Let_def filter_absent)

lemma destroy_funpow:
  assumes "sp_cb (ptr_dev a) = Some c" and "use_count w c = Suc n" and "k \<le> n"
  shows "allocs (((\<lambda>v. GPUImage_destroy v a) ^^ k) w) = allocs w \<and>
         dmem (((\<lambda>v. GPUImage_destroy v a) ^^ k) w) = dmem w \<and>
         calls (((\<lambda>v. GPUImage_destroy v a) ^^ k) w) = calls w \<and>
         use_count (((\<lambda>v. GPUImage_destroy v a) ^^ k) w) c = Suc n - k"
  using assms(3)
proof (induction k)
  case 0
  then show ?case using assms(2) by simp
next
  case (Suc k)
  define v where "v = ((\<lambda>v. GPUImage_destroy v a) ^^ k) w"
  from Suc have v: "allocs v = allocs w" "dmem v = dmem w" "calls v = calls w"
    "use_count v c = Suc n - k"
    by (simp_all add: v_def)
  then have "1 < use_count v c" using Suc.prems by simp
  from destroy_shared [OF assms(1) this]
  have "GPUImage_destroy v a = v\<lparr>use_count := (use_count v)(c := use_count v c - 1)\<rparr>" .
  moreover have "((\<lambda>v. GPUImage_destroy v a) ^^ Suc k) w = GPUImage_destroy v a"
    by (simp add: v_def)
  ultimately show ?case using v by simp
qed

lemma configure_frame:
  assumes "configure plat w t format am fm rm = Some (w', t')"
  shows "use_count w' = use_count w" and "allocs w' = allocs w" and "dmem w' = dmem w"
    and "t_image t' = t_image t"
    and "count_list (calls w') (Free p) = count_list (calls w) (Free p)"
  using assms
  by (auto simp add: configure_def cudaCreateTextureObject_def Let_def
      split: if_splits prod.splits Option.bind_splits)

lemma texture_owner:
  assumes "sp_cb (ptr_dev a) = Some c" and "c < next_cb w"
    and "sp_get (ptr_dev a) \<noteq> 0"
    and "GPUTexture_modes plat w tex0 valid0 a format am fm rm = Some (w1, t)"
  shows "t_image t = a \<and> use_count w1 c = Suc (use_count w c) \<and> allocs w1 = allocs w \<and>
    dmem w1 = dmem w \<and>
    count_list (calls w1) (Free (sp_get (ptr_dev a))) = count_list (calls w) (Free (sp_get (ptr_dev a)))"
proof -
  define w4 where "w4 =
    sp_release (sp_copy (fst (GPUImage_default (fst (GPUImage_copy w a)))) (ptr_dev a))
      (ptr_dev (snd (GPUImage_default (fst (GPUImage_copy w a)))))"
  define t0 where "t0 = \<lparr>t_image = a, t_texture = tex0, t_validTexture = valid0\<rparr>"
  from assms(4) obtain w5 where cf: "configure plat w4 t0 format am fm rm = Some (w5, t)"
    and w1: "w1 = GPUImage_destroy w5 a"
    unfolding w4_def t0_def by (rule texture_modes_unfold)
  have k: "sp_known w (ptr_dev a)" using assms(1,2) by (simp add: sp_known_def)
  have 4: "calls w4 = calls w @ [Free 0]" "allocs w4 = allocs w" "dmem w4 = dmem w"
    "use_count w4 c = Suc (Suc (use_count w c))"
    unfolding w4_def using k assms(1) by (simp_all add: texture_prepare)
  note 5 = configure_frame [OF cf]
  have "w1 = w5\<lparr>use_count := (use_count w5)(c := use_count w5 c - 1)\<rparr>"
    unfolding w1 using assms(1) 4(4) 5(1) by (intro destroy_shared) simp_all
  then show ?thesis using 4 5 assms(3) by (simp add: t0_def)
qed

lemma texture_destroy_frame:
  "GPUTexture_destroy w t =
     GPUImage_destroy
       (if t_validTexture t then checkError (cudaDestroyTextureObject w (t_texture t)) else w)
       (t_image t)"
  by (simp add: GPUTexture_destroy_def Let_def)

lemma destroy_texture_object_frame:
  fixes w t
  defines "v \<equiv> checkError (cudaDestroyTextureObject w t)"
  shows "use_count v = use_count w" and "allocs v = allocs w" and "dmem v = dmem w"
    and "count_list (calls v) (Free p) = count_list (calls w) (Free p)"
  by (simp_all add: v_def checkError_def cudaDestroyTextureObject_def Let_def)

text \<open>
  C8. A buffer \<open>a\<close> holds the allocation \<open>p\<close> through a control block with \<open>n + 1\<close> owners.
  A copy of \<open>a\<close> is the same value (same device pointer, same control block) and adds one
  owner. Destroying up to \<open>n\<close> of the owners leaves the allocation, the device memory and
  the list of platform calls as they were; destroying the last one makes exactly one call,
  \<open>cudaFree p\<close>, and the allocation leaves the device's table. A texture constructed over
  \<open>a\<close> holds \<open>a\<close> itself and adds one owner without any \<open>cudaFree p\<close>; its destructor
  lets go like one owner: \<open>cudaFree p\<close> is called once if it was the last, and not at all
  otherwise. The release goes through \<open>gpu_deleter\<close>, that is through \<open>cudaFree\<close>: no other
  deallocation exists in the program.
\<close>

theorem shared_ownership:
  assumes "sp_cb (ptr_dev a) = Some c" and "c < next_cb w" and "use_count w c = Suc n"
    and "sp_get (ptr_dev a) = p" and "p \<noteq> 0"
  shows "GPUImage_copy w a = (w\<lparr>use_count := (use_count w)(c := Suc (Suc n))\<rparr>, a) \<and>
    (\<forall>k\<le>n. allocs (((\<lambda>v. GPUImage_destroy v a) ^^ k) w) = allocs w \<and>
            dmem (((\<lambda>v. GPUImage_destroy v a) ^^ k) w) = dmem w \<and>
            calls (((\<lambda>v. GPUImage_destroy v a) ^^ k) w) = calls w \<and>
            use_count (((\<lambda>v. GPUImage_destroy v a) ^^ k) w) c = Suc n - k) \<and>
    calls (((\<lambda>v. GPUImage_destroy v a) ^^ Suc n) w) = calls w @ [Free p] \<and>
    allocs (((\<lambda>v. GPUImage_destroy v a) ^^ Suc n) w) = filter (\<lambda>x. fst x \<noteq> p) (allocs w) \<and>
    dmem (((\<lambda>v. GPUImage_destroy v a) ^^ Suc n) w) = dmem w \<and>
    (\<forall>w1 t. GPUTexture_modes plat w tex0 valid0 a format am fm rm = Some (w1, t) \<longrightarrow>
       t_image t = a \<and> use_count w1 c = Suc (Suc n) \<and> allocs w1 = allocs w \<and>
       dmem w1 = dmem w \<and> count_list (calls w1) (Free p) = count_list (calls w) (Free p)) \<and>
    (\<forall>t. t_image t = a \<longrightarrow>
       count_list (calls (GPUTexture_destroy w t)) (Free p) =
         count_list (calls w) (Free p) + (if n = 0 then 1 else 0) \<and>
       allocs (GPUTexture_destroy w t) =
         (if n = 0 then filter (\<lambda>x. fst x \<noteq> p) (allocs w) else allocs w) \<and>
       dmem (GPUTexture_destroy w t) = dmem w \<and>
       use_count (GPUTexture_destroy w t) c = n)"
proof -
  have 1: "GPUImage_copy w a = (w\<lparr>use_count := (use_count w)(c := Suc (Suc n))\<rparr>, a)"
    using assms(1,3) by (simp add: GPUImage_copy_def sp_copy_def)
  have 2: "allocs (((\<lambda>v. GPUImage_destroy v a) ^^ k) w) = allocs w \<and>
            dmem (((\<lambda>v. GPUImage_destroy v a) ^^ k) w) = dmem w \<and>
            calls (((\<lambda>v. GPUImage_destroy v a) ^^ k) w) = calls w \<and>
            use_count (((\<lambda>v. GPUImage_destroy v a) ^^ k) w) c = Suc n - k" if "k \<le> n" for k
    using assms(1,3) that by (rule destroy_funpow)
  have last: "GPUImage_destroy v a = snd (cudaFree (v\<lparr>use_count := (use_count v)(c := 0)\<rparr>) p)"
    if "use_count v c = 1" for v
    using destroy_last [OF assms(1) that] assms(4) by simp
  define vn where "vn = ((\<lambda>v. GPUImage_destroy v a) ^^ n) w"
  from 2 [of n] have vn: "allocs vn = allocs w" "dmem vn = dmem w" "calls vn = calls w"
    "use_count vn c = 1"
    by (simp_all add: vn_def)
  have "((\<lambda>v. GPUImage_destroy v a) ^^ Suc n) w = GPUImage_destroy vn a"
    by (simp add: vn_def)
  also have "\<dots> = snd (cudaFree (vn\<lparr>use_count := (use_count vn)(c := 0)\<rparr>) p)"
    using vn(4) by (rule last)
  finally have 3: "calls (((\<lambda>v. GPUImage_destroy v a) ^^ Suc n) w) = calls w @ [Free p] \<and>
    allocs (((\<lambda>v. GPUImage_destroy v a) ^^ Suc n) w) = filter (\<lambda>x. fst x \<noteq> p) (allocs w) \<and>
    dmem (((\<lambda>v. GPUImage_destroy v a) ^^ Suc n) w) = dmem w"
    using assms(5) vn by (simp add: cudaFree_fields)
  have 4: "t_image t = a \<and> use_count w1 c = Suc (Suc n) \<and> allocs w1 = allocs w \<and>
       dmem w1 = dmem w \<and> count_list (calls w1) (Free p) = count_list (calls w) (Free p)"
    if "GPUTexture_modes plat w tex0 valid0 a format am fm rm = Some (w1, t)" for w1 t
    using texture_owner [OF assms(1,2) _ that] assms(3,4,5) by simp
  have 5: "count_list (calls (GPUTexture_destroy w t)) (Free p) =
         count_list (calls w) (Free p) + (if n = 0 then 1 else 0) \<and>
       allocs (GPUTexture_destroy w t) =
         (if n = 0 then filter (\<lambda>x. fst x \<noteq> p) (allocs w) else allocs w) \<and>
       dmem (GPUTexture_destroy w t) = dmem w \<and>
       use_count (GPUTexture_destroy w t) c = n" if "t_image t = a" for t
  proof -
    define v where "v = (if t_validTexture t
                then checkError (cudaDestroyTextureObject w (t_texture t)) else w)"
    have v: "GPUTexture_destroy w t = GPUImage_destroy v a" "use_count v = use_count w"
       "allocs v = allocs w" "dmem v = dmem w"
       "count_list (calls v) (Free p) = count_list (calls w) (Free p)"
      using that by (simp_all add: v_def texture_destroy_frame destroy_texture_object_frame)
    show ?thesis
    proof (cases "n = 0")
      case True
      with v(2) assms(3) have "use_count v c = 1" by simp
      from last [OF this] v True assms(5) show ?thesis by (simp add: cudaFree_fields)
    next
      case False
      with v(2) assms(3) have "1 < use_count v c" by simp
      from destroy_shared [OF assms(1) this] v assms(3) False show ?thesis by simp
    qed
  qed
  from 1 2 3 4 5 show ?thesis by blast
qed


theorem shared_ownership_witness:
  "sp_cb (ptr_dev bufA) = Some 0 \<and> 0 < next_cb worldA \<and> use_count worldA 0 = Suc 0 \<and>
   sp_get (ptr_dev bufA) = 8 \<and> (8::nat) \<noteq> 0 \<and>
   (\<exists>w1 b. GPUImage_copy worldA bufA = (w1, b) \<and> ptr_dev b = ptr_dev bufA \<and>
      use_count w1 0 = 2 \<and>
      allocs (GPUImage_destroy w1 bufA) = [(8, 16)] \<and>
      dmem (GPUImage_destroy w1 bufA) = dmem worldA \<and>
      calls (GPUImage_destroy w1 bufA) = calls worldA \<and>
      calls (GPUImage_destroy (GPUImage_destroy w1 bufA) b) = calls worldA @ [Free 8] \<and>
      allocs (GPUImage_destroy (GPUImage_destroy w1 bufA) b) = []) \<and>
   (\<exists>wt t. GPUTexture_modes (sim 64) worldA 0 False bufA cudaChannelFormatKindUnsigned
        cudaAddressModeClamp cudaFilterModePoint cudaReadModeElementType = Some (wt, t) \<and>
      t_image t = bufA \<and> use_count wt 0 = 2 \<and> allocs wt = [(8, 16)] \<and>
      count_list (calls wt) (Free 8) = 0 \<and>
      allocs (GPUImage_destroy wt bufA) = [(8, 16)] \<and>
      count_list (calls (GPUImage_destroy wt bufA)) (Free 8) = 0 \<and>
      count_list (calls (GPUTexture_destroy (GPUImage_destroy wt bufA) t)) (Free 8) = 1 \<and>
      allocs (GPUTexture_destroy (GPUImage_destroy wt bufA) t) = [])"
proof -
  have A: "sp_cb (ptr_dev bufA) = Some 0" "0 < next_cb worldA" "use_count worldA 0 = Suc 0"
    "sp_get (ptr_dev bufA) = 8" "(8::nat) \<noteq> 0"
    by (simp_all add: bufA_def worldA_def)
  have W: "allocs worldA = [(8, 16)]" "calls worldA = [MallocPitch 2 2]"
    by (simp_all add: worldA_def)
  note T0 = shared_ownership [OF A, of "sim 64" 0 False cudaChannelFormatKindUnsigned
      cudaAddressModeClamp cudaFilterModePoint cudaReadModeElementType]
  define w1 where "w1 = worldA\<lparr>use_count := (use_count worldA)(0 := Suc (Suc 0))\<rparr>"
  have c1: "GPUImage_copy worldA bufA = (w1, bufA)" using T0 by (simp add: w1_def)
  have B: "0 < next_cb w1" "use_count w1 0 = Suc 1"
    by (simp_all add: w1_def worldA_def)
  note T1 = shared_ownership [OF A(1) B A(4,5)]
  have d1: "allocs (GPUImage_destroy w1 bufA) = [(8, 16)]"
    "dmem (GPUImage_destroy w1 bufA) = dmem worldA"
    "calls (GPUImage_destroy w1 bufA) = calls worldA"
    using T1 [THEN conjunct2, THEN conjunct1, rule_format, of 1]
    by (simp_all add: w1_def W)
  have d2: "calls (GPUImage_destroy (GPUImage_destroy w1 bufA) bufA) = calls worldA @ [Free 8]"
    "allocs (GPUImage_destroy (GPUImage_destroy w1 bufA) bufA) = []"
    using T1 [THEN conjunct2, THEN conjunct2]
    by (simp_all add: w1_def W numeral_2_eq_2)
  obtain wt t where ct: "GPUTexture_modes (sim 64) worldA 0 False bufA
        cudaChannelFormatKindUnsigned cudaAddressModeClamp cudaFilterModePoint
        cudaReadModeElementType = Some (wt, t)" and nt: "next_cb wt = 2"
    by (simp add: GPUTexture_modes_def GPUImage_copy_def GPUImage_default_def sp_make_def
      sp_release_def sp_empty_def sp_copy_def gpu_deleter_def cudaFree_null Let_def configure_def
      int_mul_def INT_MIN_def INT_MAX_def cudaCreateTextureObject_def sim_def bufA_def worldA_def
      world_host_def world0_def GPUImage_destroy_def)
  from T0 ct have t: "t_image t = bufA" "use_count wt 0 = Suc 1" "allocs wt = [(8, 16)]"
    "count_list (calls wt) (Free 8) = 0"
    by (simp_all add: W)
  have C: "0 < next_cb wt" using nt by simp
  note T2 = shared_ownership [OF A(1) C t(2) A(4,5)]
  define w2 where "w2 = GPUImage_destroy wt bufA"
  have e1: "allocs w2 = [(8, 16)]" "calls w2 = calls wt" "use_count w2 0 = Suc 0"
    using T2 [THEN conjunct2, THEN conjunct1, rule_format, of 1]
    by (simp_all add: w2_def t)
  have "next_cb w2 = next_cb wt"
    using A(1) t(2) by (simp add: w2_def destroy_shared)
  then have D: "0 < next_cb w2" using C by simp
  note T3 = shared_ownership [OF A(1) D e1(3) A(4,5)]
  have e2: "count_list (calls (GPUTexture_destroy w2 t)) (Free 8) = 1"
    "allocs (GPUTexture_destroy w2 t) = []"
    using T3 t(1) e1 t(4) by simp_all
  from A c1 B d1 d2 ct t e1 e2 show ?thesis
    by (simp add: w2_def)
qed

end
